theory Spec2Isabelle
  imports Complex_Main "HOL-Library.AList"
begin

section \<open>Python strings\<close>

text \<open>
  A Python \<^verbatim>\<open>str\<close> is a sequence of code points. It is modelled as a HOL \<^typ>\<open>string\<close> with
  one \<^typ>\<open>char\<close> per code point, for the code points below 256 (ASCII and Latin-1): the
  messages, model responses and country names of the development range over these strings.
  The string methods below follow CPython on that range.
\<close>

definition isspace :: "char \<Rightarrow> bool" where
  \<comment> \<open>\<^verbatim>\<open>str.isspace\<close> on one character: TAB, LF, VT, FF, CR, FS, GS, RS, US, SPACE, NEL, NBSP.\<close>
  "isspace c = (c \<in> set [CHR 0x09, CHR 0x0A, CHR 0x0B, CHR 0x0C, CHR 0x0D, CHR 0x1C, CHR 0x1D,
     CHR 0x1E, CHR 0x1F, CHR 0x20, CHR 0x85, CHR 0xA0])"

definition strip :: "string \<Rightarrow> string" where
  \<comment> \<open>\<^verbatim>\<open>s.strip()\<close>\<close>
  "strip s = rev (dropWhile isspace (rev (dropWhile isspace s)))"

definition strip_chars :: "string \<Rightarrow> string \<Rightarrow> string" where
  \<comment> \<open>\<^verbatim>\<open>s.strip(chars)\<close>\<close>
  "strip_chars chars s =
     rev (dropWhile (\<lambda>c. c \<in> set chars) (rev (dropWhile (\<lambda>c. c \<in> set chars) s)))"

definition lower_char :: "char \<Rightarrow> char" where
  \<comment> \<open>A-Z and the Latin-1 capitals (U+00C0 to U+00DE without the multiplication sign U+00D7)
      move up by 32; every other code point below 256 is its own lower case.\<close>
  "lower_char c = (let n = (of_char c :: nat) in
     if (65 \<le> n \<and> n \<le> 90) \<or> (192 \<le> n \<and> n \<le> 222 \<and> n \<noteq> 215)
     then char_of (n + 32) else c)"

definition lower :: "string \<Rightarrow> string" where
  \<comment> \<open>\<^verbatim>\<open>s.lower()\<close>\<close>
  "lower s = map lower_char s"

fun startswith :: "string \<Rightarrow> string \<Rightarrow> bool" where
  \<comment> \<open>\<^verbatim>\<open>s.startswith(p)\<close>, as \<open>startswith p s\<close>\<close>
  "startswith [] s = True"
| "startswith (p # ps) [] = False"
| "startswith (p # ps) (c # cs) = (p = c \<and> startswith ps cs)"

fun find_sub :: "string \<Rightarrow> string \<Rightarrow> nat option" where
  \<comment> \<open>\<^verbatim>\<open>s.find(sub)\<close>: the index of the first occurrence, \<open>None\<close> for Python's -1\<close>
  "find_sub sub [] = (if sub = [] then Some 0 else None)"
| "find_sub sub (c # cs) =
     (if startswith sub (c # cs) then Some 0 else map_option Suc (find_sub sub cs))"

definition contains :: "string \<Rightarrow> string \<Rightarrow> bool" where
  \<comment> \<open>\<^verbatim>\<open>sub in s\<close>, as \<open>contains sub s\<close>: case-sensitive substring containment\<close>
  "contains sub s = (find_sub sub s \<noteq> None)"

function split_str :: "string \<Rightarrow> string \<Rightarrow> string list" where
  \<comment> \<open>\<^verbatim>\<open>s.split(sep)\<close> for a non-empty separator, as \<open>split_str sep s\<close>: the pieces between
      the occurrences of \<open>sep\<close>, found left to right without overlap. (Python raises
      ValueError on an empty separator; every separator of the program is a non-empty
      literal.)\<close>
  "split_str sep s =
     (if sep = [] then [s]
      else case find_sub sep s of
             None \<Rightarrow> [s]
           | Some i \<Rightarrow> take i s # split_str sep (drop (i + length sep) s))"
  by pat_completeness auto

lemma startswith_length: "startswith p s \<Longrightarrow> length p \<le> length s"
  by (induction p s rule: startswith.induct) auto

lemma find_sub_bound: "find_sub sub s = Some i \<Longrightarrow> i + length sub \<le> length s"
proof (induction s arbitrary: i)
  case Nil
  then show ?case by (simp split: if_splits)
next
  case (Cons c cs)
  show ?case
  proof (cases "startswith sub (c # cs)")
    case True
    with Cons.prems startswith_length [OF True] show ?thesis by simp
  next
    case False
    with Cons.prems obtain j where j: "find_sub sub cs = Some j" and i: "i = Suc j"
      by auto
    from Cons.IH [OF j] i show ?thesis by simp
  qed
qed

termination split_str
proof (relation "measure (\<lambda>(sep, s). length s)")
  show "wf (measure (\<lambda>(sep, s). length s))" by simp
next
  fix sep s :: string and i
  assume nonempty: "sep \<noteq> []" and found: "find_sub sep s = Some i"
  from found have b: "i + length sep \<le> length s" by (rule find_sub_bound)
  from nonempty have "0 < length sep" by simp
  with b have "length s - (i + length sep) < length s" by arith
  then show "((sep, drop (i + length sep) s), (sep, s)) \<in> measure (\<lambda>(sep, s). length s)"
    by simp
qed

declare split_str.simps [simp del]

fun split_once :: "char \<Rightarrow> string \<Rightarrow> string list" where
  \<comment> \<open>\<^verbatim>\<open>s.split(c, 1)\<close>: at most one split, at the first occurrence of \<open>c\<close>\<close>
  "split_once sep s =
     (case find_sub [sep] s of
        None \<Rightarrow> [s]
      | Some i \<Rightarrow> [take i s, drop (Suc i) s])"

fun split_ws_from :: "string \<Rightarrow> string \<Rightarrow> string list" where
  "split_ws_from cur [] = (if cur = [] then [] else [rev cur])"
| "split_ws_from cur (c # cs) =
     (if isspace c
      then (if cur = [] then split_ws_from [] cs else rev cur # split_ws_from [] cs)
      else split_ws_from (c # cur) cs)"

definition split_ws :: "string \<Rightarrow> string list" where
  \<comment> \<open>\<^verbatim>\<open>s.split()\<close>: the maximal runs of non-whitespace characters\<close>
  "split_ws s = split_ws_from [] s"

definition replace_char :: "char \<Rightarrow> string \<Rightarrow> string \<Rightarrow> string" where
  \<comment> \<open>\<^verbatim>\<open>s.replace(c, r)\<close> for a one-character \<open>c\<close>\<close>
  "replace_char c r s = concat (map (\<lambda>x. if x = c then r else [x]) s)"

definition is_alnum_ascii :: "char \<Rightarrow> bool" where
  \<comment> \<open>the character class \<^verbatim>\<open>[a-zA-Z0-9]\<close>\<close>
  "is_alnum_ascii c = (let n = (of_char c :: nat) in
     (97 \<le> n \<and> n \<le> 122) \<or> (65 \<le> n \<and> n \<le> 90) \<or> (48 \<le> n \<and> n \<le> 57))"

definition fullmatch_alnum :: "string \<Rightarrow> bool" where
  \<comment> \<open>\<^verbatim>\<open>re.fullmatch(r"[a-zA-Z0-9]+", s)\<close> finds a match\<close>
  "fullmatch_alnum s = (s \<noteq> [] \<and> list_all is_alnum_ascii s)"

section \<open>Python values and dictionaries\<close>

text \<open>
  The values that travel through the program as JSON data and dictionary entries. A number
  is never computed with, only stored and tested for truth, so one constructor stands for
  Python's \<^verbatim>\<open>int\<close> and \<^verbatim>\<open>float\<close>. A dictionary is an association list in insertion
  order; assignment to a key replaces the entry in place or appends a new one
  (\<^const>\<open>AList.update\<close>).
\<close>

datatype pyval =
    PNone
  | PBool bool
  | PNum rat
  | PStr string
  | PList "pyval list"
  | PDict "(string \<times> pyval) list"

type_synonym pydict = "(string \<times> pyval) list"

datatype error = ValueError | UnboundLocalError | AttributeError | KeyError | IndexError | TypeError

definition has_key :: "pydict \<Rightarrow> string \<Rightarrow> bool" where
  \<comment> \<open>\<^verbatim>\<open>k in d\<close>\<close>
  "has_key d k = (map_of d k \<noteq> None)"

definition dict_get :: "pydict \<Rightarrow> string \<Rightarrow> pyval \<Rightarrow> pyval" where
  \<comment> \<open>\<^verbatim>\<open>d.get(k, default)\<close>\<close>
  "dict_get d k dflt = (case map_of d k of None \<Rightarrow> dflt | Some v \<Rightarrow> v)"

definition dict_set :: "pydict \<Rightarrow> string \<Rightarrow> pyval \<Rightarrow> pydict" where
  \<comment> \<open>\<^verbatim>\<open>d[k] = v\<close>\<close>
  "dict_set d k v = AList.update k v d"

fun dict_update :: "pydict \<Rightarrow> pydict \<Rightarrow> pydict" where
  \<comment> \<open>\<^verbatim>\<open>d.update(other)\<close>: the entries of \<open>other\<close> assigned in order\<close>
  "dict_update d [] = d"
| "dict_update d ((k, v) # kvs) = dict_update (dict_set d k v) kvs"

fun truthy :: "pyval \<Rightarrow> bool" where
  \<comment> \<open>the truth value Python's \<^verbatim>\<open>if\<close>, \<^verbatim>\<open>or\<close> and \<^verbatim>\<open>not\<close> test\<close>
  "truthy PNone = False"
| "truthy (PBool b) = b"
| "truthy (PNum r) = (r \<noteq> 0)"
| "truthy (PStr s) = (s \<noteq> [])"
| "truthy (PList xs) = (xs \<noteq> [])"
| "truthy (PDict d) = (d \<noteq> [])"

definition py_or :: "pyval \<Rightarrow> pyval \<Rightarrow> pyval" where
  \<comment> \<open>\<^verbatim>\<open>a or b\<close>\<close>
  "py_or a b = (if truthy a then a else b)"

definition second :: "'a list \<Rightarrow> error + 'a" where
  \<comment> \<open>\<^verbatim>\<open>xs[1]\<close>\<close>
  "second xs = (case xs of _ # y # _ \<Rightarrow> Inr y | _ \<Rightarrow> Inl IndexError)"

section \<open>The collaborators and the process state\<close>

text \<open>
  The program talks to three things it does not own: the Gemini completion service, the
  Nominatim geocoder (over HTTP) and Python's random generator. Each is an oracle of the
  environment \<open>env\<close>, indexed by the number of calls made before, so that the same request
  may be answered differently each time. The requests made are logged in the state, which
  is how a statement that a service is (not) called is expressed.

  A prompt is a fixed template of the source with values interpolated in its holes. The
  model keeps the template's name and the interpolated values instead of the rendered text:
  the completion service may depend on everything the rendered text shows.
\<close>

datatype location_context =
    NoLocationContext
  | EnhancedLocationContext pyval pyval
  | UserLocationContext pyval

datatype prompt =
    IntentPrompt string
  | ExtractPrompt string
  | FashionPrompt location_context pyval pyval pyval string string
  | ClassificationPrompt pyval pyval pyval

datatype http_outcome =
    RequestFailed
  | Response nat "pyval option"

record env =
  api_key :: "string option"
  gemini_model_var :: "string option"
  choice :: "nat \<Rightarrow> nat"
  generate :: "nat \<Rightarrow> string \<Rightarrow> prompt \<Rightarrow> string option"
  http_get :: "nat \<Rightarrow> string \<Rightarrow> http_outcome"
  to_float :: "pyval \<Rightarrow> pyval option"

text \<open>
  \<^item> \<open>api_key\<close>, \<open>gemini_model_var\<close>: the environment variables \<^verbatim>\<open>GEMINI_API_KEY\<close> and
    \<^verbatim>\<open>GEMINI_MODEL\<close> as \<^verbatim>\<open>config.py\<close> read them at import (\<open>None\<close> when unset).
  \<^item> \<open>choice n\<close>: the index \<^verbatim>\<open>random.choice\<close> draws on its \<open>n\<close>-th call (taken modulo the
    length of the sequence).
  \<^item> \<open>generate n model prompt\<close>: the \<open>n\<close>-th completion attempt, lines 46 to 48 of
    \<^verbatim>\<open>gemini_utils.py\<close> (\<^verbatim>\<open>GenerativeModel(model).generate_content(prompt).text\<close>): the text,
    or \<open>None\<close> when any of the three steps raises.
  \<^item> \<open>http_get n query\<close>: the \<open>n\<close>-th \<^verbatim>\<open>requests.get\<close> of \<^verbatim>\<open>geo.py\<close>: the request
    raises (\<open>RequestFailed\<close>, which includes the 10 second timeout), or answers with a
    status code and a body that \<^verbatim>\<open>response.json()\<close> decodes (\<open>None\<close>: decoding raises).
  \<^item> \<open>to_float v\<close>: Python's \<^verbatim>\<open>float(v)\<close>, \<open>None\<close> when it raises.
\<close>

record world =
  user_preferences :: "string \<rightharpoonup> pydict"
  llm_calls :: "(string \<times> prompt) list"
  draws :: nat
  http_calls :: "string list"

text \<open>
  \<open>user_preferences\<close> is the module-level dictionary of \<^verbatim>\<open>gemini_utils.py\<close>; \<open>llm_calls\<close>
  logs every completion attempt (model name and prompt), \<open>draws\<close> counts the calls of
  \<^verbatim>\<open>random.choice\<close>, \<open>http_calls\<close> logs the queries sent to the geocoder.
\<close>

section \<open>config.py\<close>

definition GEMINI_MODELS :: "string list" where
  "GEMINI_MODELS = [''models/gemini-1.5-flash'', ''models/gemini-1.5-flash-8b'',
     ''models/gemini-2.0-flash'', ''models/gemini-2.5-flash'']"

record gemini_config =
  cfg_api_key :: string
  cfg_model :: string
  available_models :: "string list"

definition get_gemini_config :: "env \<Rightarrow> error + gemini_config" where
  "get_gemini_config e =
     (case api_key e of
        None \<Rightarrow> Inl ValueError
      | Some k \<Rightarrow>
          if k = [] then Inl ValueError
          else Inr \<lparr>cfg_api_key = k,
                    cfg_model = (case gemini_model_var e of None \<Rightarrow> hd GEMINI_MODELS | Some m \<Rightarrow> m),
                    available_models = GEMINI_MODELS\<rparr>)"

section \<open>gemini\_utils.py: the completion call\<close>

definition get_model_for_task :: "string \<Rightarrow> string" where
  "get_model_for_task task_complexity =
     (if task_complexity = ''simple'' then ''models/gemini-1.5-flash''
      else if task_complexity = ''medium'' then ''models/gemini-2.0-flash''
      else ''models/gemini-2.5-flash'')"

definition random_choice :: "env \<Rightarrow> 'a list \<Rightarrow> world \<Rightarrow> (error + 'a) \<times> world" where
  \<comment> \<open>\<^verbatim>\<open>random.choice(xs)\<close>; IndexError on an empty sequence\<close>
  "random_choice e xs w =
     (if xs = [] then (Inl IndexError, w)
      else (Inr (xs ! (choice e (draws w) mod length xs)), w\<lparr>draws := Suc (draws w)\<rparr>))"

definition select_model :: "env \<Rightarrow> string \<Rightarrow> bool \<Rightarrow> world \<Rightarrow> (error + string) \<times> world" where
  \<comment> \<open>lines 40 to 43 of \<^verbatim>\<open>_llm_chat\<close>: the assignment to \<^verbatim>\<open>model_name\<close>\<close>
  "select_model e task_complexity use_random_model w =
     (if use_random_model
      then (case get_gemini_config e of
              Inl err \<Rightarrow> (Inl err, w)
            | Inr cfg \<Rightarrow> random_choice e (available_models cfg) w)
      else (Inr (get_model_for_task task_complexity), w))"

definition generate_content :: "env \<Rightarrow> string \<Rightarrow> prompt \<Rightarrow> world \<Rightarrow> string option \<times> world" where
  \<comment> \<open>one completion attempt with the named model, logged\<close>
  "generate_content e model_name p w =
     (generate e (length (llm_calls w)) model_name p,
      w\<lparr>llm_calls := llm_calls w @ [(model_name, p)]\<rparr>)"

definition apology :: string where
  "apology = ''I'm having trouble generating a response right now. Please try again.''"

definition fallback_model_for :: "string \<Rightarrow> string" where
  \<comment> \<open>lines 52 to 54: \<^verbatim>\<open>fallback_model\<close> after a failure of \<^verbatim>\<open>model_name\<close>\<close>
  "fallback_model_for model_name =
     (if model_name = ''models/gemini-1.5-flash'' then ''models/gemini-2.0-flash''
      else ''models/gemini-1.5-flash'')"

definition llm_chat :: "env \<Rightarrow> prompt \<Rightarrow> string \<Rightarrow> bool \<Rightarrow> world \<Rightarrow> (error + string) \<times> world" where
  \<comment> \<open>\<^verbatim>\<open>_llm_chat(prompt, task_complexity, use_random_model)\<close>. When the selection of the
      model raises, \<^verbatim>\<open>model_name\<close> is unbound in the handler, whose first statement then
      raises UnboundLocalError outside the inner \<^verbatim>\<open>try\<close>.\<close>
  "llm_chat e p task_complexity use_random_model w =
     (case select_model e task_complexity use_random_model w of
        (Inl err, w1) \<Rightarrow> (Inl UnboundLocalError, w1)
      | (Inr model_name, w1) \<Rightarrow>
          (case generate_content e model_name p w1 of
             (Some text, w2) \<Rightarrow> (Inr (strip text), w2)
           | (None, w2) \<Rightarrow>
               (let fallback_model = fallback_model_for model_name
                in case generate_content e fallback_model p w2 of
                     (Some text, w3) \<Rightarrow> (Inr (strip text), w3)
                   | (None, w3) \<Rightarrow> (Inr apology, w3))))"

section \<open>geo.py: the geocoder lookup\<close>

definition nominatim_record :: "env \<Rightarrow> pydict \<Rightarrow> pydict option" where
  \<comment> \<open>the dictionary of lines 38 to 47, built from the first result; \<open>None\<close> when one of
      the two \<^verbatim>\<open>float\<close> conversions raises (caught by the handler of line 49)\<close>
  "nominatim_record e result =
     (case to_float e (dict_get result ''lat'' (PNum 0)) of
        None \<Rightarrow> None
      | Some latitude \<Rightarrow>
          (case to_float e (dict_get result ''lon'' (PNum 0)) of
             None \<Rightarrow> None
           | Some longitude \<Rightarrow>
               Some [(''display_name'', dict_get result ''display_name'' (PStr [])),
                     (''source'', PStr ''nominatim''),
                     (''latitude'', latitude),
                     (''longitude'', longitude),
                     (''bbox'', dict_get result ''boundingbox'' (PList [])),
                     (''address'', dict_get result ''address'' (PDict [])),
                     (''place_id'', dict_get result ''place_id'' (PStr [])),
                     (''importance'', dict_get result ''importance'' (PNum 0))]))"

definition get_user_location_polygon ::
  "env \<Rightarrow> string \<Rightarrow> string list \<Rightarrow> pydict option \<times> string list" where
  \<comment> \<open>\<^verbatim>\<open>LocationAPI.get_user_location_polygon\<close>, threading the log of the queries sent.
      Indexing the decoded body with 0 and calling \<^verbatim>\<open>.get\<close> on the result succeed only for
      a list whose first element is a dictionary; everything else raises inside the
      \<^verbatim>\<open>try\<close> and ends in \<^verbatim>\<open>return None\<close>.\<close>
  "get_user_location_polygon e location_query requests =
     (if location_query = [] \<or> lower location_query = ''unknown'' then (None, requests)
      else
        (case http_get e (length requests) location_query of
           RequestFailed \<Rightarrow> None
         | Response status_code body \<Rightarrow>
             if status_code = 200
             then (case body of
                     None \<Rightarrow> None
                   | Some results \<Rightarrow>
                       if truthy results
                       then (case results of
                               PList (PDict result # rest) \<Rightarrow> nominatim_record e result
                             | _ \<Rightarrow> None)
                       else None)
             else None,
         requests @ [location_query]))"

section \<open>gemini\_utils.py: fact extraction\<close>

definition get_enhanced_location_info :: "env \<Rightarrow> string \<Rightarrow> world \<Rightarrow> pydict option \<times> world" where
  \<comment> \<open>the module-level function of \<^verbatim>\<open>gemini_utils.py\<close> (lines 79 to 98)\<close>
  "get_enhanced_location_info e location_string w =
     (if location_string = [] \<or> lower location_string = ''unknown'' then (None, w)
      else
        (case get_user_location_polygon e location_string (http_calls w) of
           (polygon, requests) \<Rightarrow>
             ((case polygon of
                 None \<Rightarrow>
                   Some [(''original_query'', PStr location_string),
                         (''polygon_available'', PBool False)]
               | Some polygon_data \<Rightarrow>
                   if polygon_data \<noteq> []
                   then Some [(''original_query'', PStr location_string),
                              (''display_name'', dict_get polygon_data ''display_name'' (PStr [])),
                              (''source'', dict_get polygon_data ''source'' (PStr [])),
                              (''bbox'', dict_get polygon_data ''bbox'' (PList [])),
                              (''polygon_available'', PBool True)]
                   else Some [(''original_query'', PStr location_string),
                              (''polygon_available'', PBool False)]),
              w\<lparr>http_calls := requests\<rparr>)))"

definition store_pref :: "string \<Rightarrow> string \<Rightarrow> pyval \<Rightarrow> world \<Rightarrow> (error + unit) \<times> world" where
  \<comment> \<open>\<^verbatim>\<open>user_preferences[user_id][key] = v\<close>\<close>
  "store_pref user_id key v w =
     (case user_preferences w user_id of
        None \<Rightarrow> (Inl KeyError, w)
      | Some d \<Rightarrow>
          (Inr (), w\<lparr>user_preferences := (user_preferences w)(user_id \<mapsto> dict_set d key v)\<rparr>))"

definition labelled_value :: "string \<Rightarrow> string \<Rightarrow> error + string" where
  \<comment> \<open>\<^verbatim>\<open>line.split(label)[1].strip()\<close>\<close>
  "labelled_value label line =
     (case second (split_str label line) of
        Inl err \<Rightarrow> Inl err
      | Inr piece \<Rightarrow> Inr (strip piece))"

definition extract_line :: "env \<Rightarrow> string \<Rightarrow> string \<Rightarrow> world \<Rightarrow> (error + unit) \<times> world" where
  \<comment> \<open>the body of the loop of \<^verbatim>\<open>extract_user_info\<close> (lines 121 to 139)\<close>
  "extract_line e user_id line w =
     (if contains ''Location:'' line then
        (case labelled_value ''Location:'' line of
           Inl err \<Rightarrow> (Inl err, w)
         | Inr location \<Rightarrow>
             if location \<noteq> ''unknown'' then
               (case store_pref user_id ''location'' (PStr location) w of
                  (Inl err, w1) \<Rightarrow> (Inl err, w1)
                | (Inr u, w1) \<Rightarrow>
                    (case get_enhanced_location_info e location w1 of
                       (None, w2) \<Rightarrow> (Inr (), w2)
                     | (Some enhanced_location, w2) \<Rightarrow>
                         if enhanced_location \<noteq> []
                         then store_pref user_id ''enhanced_location'' (PDict enhanced_location) w2
                         else (Inr (), w2)))
             else (Inr (), w))
      else if contains ''Body Type:'' line then
        (case labelled_value ''Body Type:'' line of
           Inl err \<Rightarrow> (Inl err, w)
         | Inr body_type \<Rightarrow>
             if body_type \<noteq> ''unknown''
             then store_pref user_id ''body_type'' (PStr body_type) w
             else (Inr (), w))
      else if contains ''Style Preferences:'' line then
        (case labelled_value ''Style Preferences:'' line of
           Inl err \<Rightarrow> (Inl err, w)
         | Inr style \<Rightarrow>
             if style \<noteq> ''unknown''
             then store_pref user_id ''style_preferences'' (PStr style) w
             else (Inr (), w))
      else if contains ''Budget:'' line then
        (case labelled_value ''Budget:'' line of
           Inl err \<Rightarrow> (Inl err, w)
         | Inr budget \<Rightarrow>
             if budget \<noteq> ''unknown''
             then store_pref user_id ''budget'' (PStr budget) w
             else (Inr (), w))
      else (Inr (), w))"

fun extract_lines :: "env \<Rightarrow> string \<Rightarrow> string list \<Rightarrow> world \<Rightarrow> (error + unit) \<times> world" where
  \<comment> \<open>\<^verbatim>\<open>for line in lines\<close>: an exception ends the loop with the state reached\<close>
  "extract_lines e user_id [] w = (Inr (), w)"
| "extract_lines e user_id (line # lines) w =
     (case extract_line e user_id line w of
        (Inl err, w1) \<Rightarrow> (Inl err, w1)
      | (Inr u, w1) \<Rightarrow> extract_lines e user_id lines w1)"

definition extract_user_info :: "env \<Rightarrow> string \<Rightarrow> string \<Rightarrow> world \<Rightarrow> (error + pydict) \<times> world" where
  "extract_user_info e message user_id w =
     (case llm_chat e (ExtractPrompt message) ''medium'' True w of
        (Inl err, w1) \<Rightarrow> (Inl err, w1)
      | (Inr extracted, w1) \<Rightarrow>
          (let w2 = (case user_preferences w1 user_id of
                       None \<Rightarrow> w1\<lparr>user_preferences := (user_preferences w1)(user_id \<mapsto> [])\<rparr>
                     | Some d \<Rightarrow> w1)
           in case extract_lines e user_id (split_str [CHR 0x0A] (strip extracted)) w2 of
                (Inl err, w3) \<Rightarrow> (Inl err, w3)
              | (Inr u, w3) \<Rightarrow>
                  (case user_preferences w3 user_id of
                     None \<Rightarrow> (Inl KeyError, w3)
                   | Some d \<Rightarrow> (Inr d, w3))))"

section \<open>gemini\_utils.py: the response pipeline\<close>

definition classify_intent :: "env \<Rightarrow> string \<Rightarrow> world \<Rightarrow> (error + string) \<times> world" where
  "classify_intent e message w = llm_chat e (IntentPrompt message) ''simple'' False w"

definition location_context_of :: "pyval \<Rightarrow> pyval \<Rightarrow> error + location_context" where
  \<comment> \<open>lines 151 to 159 of \<^verbatim>\<open>generate_fashion_response\<close>; \<^verbatim>\<open>.get\<close> on a true value that is
      not a dictionary raises AttributeError\<close>
  "location_context_of location enhanced_location =
     (case enhanced_location of
        PDict d \<Rightarrow>
          if d \<noteq> [] \<and> truthy (dict_get d ''polygon_available'' PNone)
          then Inr (EnhancedLocationContext location (dict_get d ''display_name'' (PStr [])))
          else if location \<noteq> PStr ''unknown'' then Inr (UserLocationContext location)
          else Inr NoLocationContext
      | other \<Rightarrow>
          if truthy other then Inl AttributeError
          else if location \<noteq> PStr ''unknown'' then Inr (UserLocationContext location)
          else Inr NoLocationContext)"

definition generate_fashion_response ::
  "env \<Rightarrow> string \<Rightarrow> string \<Rightarrow> string \<Rightarrow> world \<Rightarrow> (error + string) \<times> world" where
  "generate_fashion_response e message intent_category user_id w =
     (let user_info = (case user_preferences w user_id of None \<Rightarrow> [] | Some d \<Rightarrow> d);
          location = dict_get user_info ''location'' (PStr ''unknown'');
          enhanced_location = dict_get user_info ''enhanced_location'' (PDict []);
          body_type = dict_get user_info ''body_type'' (PStr ''unknown'');
          style_preferences = dict_get user_info ''style_preferences'' (PStr ''unknown'');
          budget = dict_get user_info ''budget'' (PStr ''unknown'')
      in case location_context_of location enhanced_location of
           Inl err \<Rightarrow> (Inl err, w)
         | Inr location_context \<Rightarrow>
             llm_chat e
               (FashionPrompt location_context body_type style_preferences budget
                  intent_category message)
               ''complex'' True w)"

definition greetings :: "string list" where
  "greetings = [''hey'', ''hi'', ''hello'', ''hola'', ''yo'', ''greetings'']"

definition greeting_reply :: string where
  "greeting_reply = ''Hey! I am Cultura, your personal stylist. How can I help you today?''"

definition not_understood_reply :: string where
  "not_understood_reply = ''Hey, I didn't understand you. Could you please elaborate?''"

definition intent_categories :: "string list" where
  "intent_categories =
     [''skincare'', ''event_dressing'', ''travel'', ''music'', ''general_recommendation'']"

definition process_user_message :: "env \<Rightarrow> string \<Rightarrow> string \<Rightarrow> world \<Rightarrow> (error + string) \<times> world" where
  "process_user_message e message user_id w =
     (case extract_user_info e message user_id w of
        (Inl err, w1) \<Rightarrow> (Inl err, w1)
      | (Inr facts, w1) \<Rightarrow>
          if lower (strip message) \<in> set greetings then (Inr greeting_reply, w1)
          else if length (split_ws (strip message)) = 1
                  \<and> lower (strip message) \<notin> set greetings
                  \<and> fullmatch_alnum (strip message)
          then (Inr not_understood_reply, w1)
          else
            (case classify_intent e message w1 of
               (Inl err, w2) \<Rightarrow> (Inl err, w2)
             | (Inr intent, w2) \<Rightarrow>
                 if intent \<notin> set intent_categories then (Inr not_understood_reply, w2)
                 else generate_fashion_response e message intent user_id w2))"

section \<open>location.py: the classification parser\<close>

datatype json_outcome =
    Decoded pydict
  | DecodeError
  | Raises error

record services =
  llm_chat_function :: "nat \<Rightarrow> prompt \<Rightarrow> error + string"
  json_loads :: "string \<Rightarrow> json_outcome"
  format_value :: "pyval \<Rightarrow> string"

definition search_braces :: "string \<Rightarrow> string option" where
  \<comment> \<open>\<^verbatim>\<open>re.search(r'\{.*\}', response, re.DOTALL)\<close> and \<^verbatim>\<open>.group()\<close>: from the first opening
      brace to the last closing brace after it; \<open>None\<close> when there is no such pair\<close>
  "search_braces response =
     (case dropWhile (\<lambda>c. c \<noteq> CHR ''{'') response of
        [] \<Rightarrow> None
      | brace # rest \<Rightarrow>
          (case dropWhile (\<lambda>c. c \<noteq> CHR ''}'') (rev rest) of
             [] \<Rightarrow> None
           | r \<Rightarrow> Some (brace # rev r)))"

definition required_fields :: "string list" where
  "required_fields = [''region'', ''climate_zone'', ''fashion_market'']"

definition list_fields :: "string list" where
  "list_fields = [''local_brands'', ''available_stores'', ''online_platforms'',
     ''cultural_considerations'', ''popular_styles'']"

definition scalar_fields :: "string list" where
  \<comment> \<open>the keys of line 173\<close>
  "scalar_fields = [''region'', ''climate_zone'', ''fashion_market'', ''seasonal_info'',
     ''price_range_info'']"

definition empty_recommendations :: pyval where
  "empty_recommendations =
     PDict [(''fabrics'', PList []), (''colors'', PList []), (''styles'', PList []),
            (''essentials'', PList [])]"

fun is_list :: "pyval \<Rightarrow> bool" where
  \<comment> \<open>\<^verbatim>\<open>isinstance(v, list)\<close>\<close>
  "is_list (PList xs) = True"
| "is_list v = False"

definition ensure_required :: "string \<Rightarrow> pydict \<Rightarrow> pydict" where
  \<comment> \<open>lines 120 and 121, for one field\<close>
  "ensure_required field classification =
     (if \<not> has_key classification field then dict_set classification field (PStr ''unknown'')
      else classification)"

definition ensure_list :: "string \<Rightarrow> pydict \<Rightarrow> pydict" where
  \<comment> \<open>lines 126 and 127, for one field\<close>
  "ensure_list field classification =
     (if \<not> has_key classification field \<or> \<not> is_list (dict_get classification field PNone)
      then dict_set classification field (PList [])
      else classification)"

definition ensure_recommendations :: "pydict \<Rightarrow> pydict" where
  \<comment> \<open>lines 130 to 133\<close>
  "ensure_recommendations classification =
     (if \<not> has_key classification ''climate_recommendations''
      then dict_set classification ''climate_recommendations'' empty_recommendations
      else classification)"

function findall_quoted :: "string \<Rightarrow> string list" where
  \<comment> \<open>\<^verbatim>\<open>re.findall(r'"([^"]+)"', s)\<close>: scanning from the left, a double quote followed by a
      non-empty run of other characters and a closing double quote yields the run, and the
      scan goes on after the closing quote; anywhere else it moves on by one character\<close>
  "findall_quoted [] = []"
| "findall_quoted (c # cs) =
     (if c = CHR 0x22 \<and> takeWhile (\<lambda>x. x \<noteq> CHR 0x22) cs \<noteq> []
           \<and> dropWhile (\<lambda>x. x \<noteq> CHR 0x22) cs \<noteq> []
      then takeWhile (\<lambda>x. x \<noteq> CHR 0x22) cs
             # findall_quoted (tl (dropWhile (\<lambda>x. x \<noteq> CHR 0x22) cs))
      else findall_quoted cs)"
  by pat_completeness auto

termination findall_quoted
proof (relation "measure length")
  show "wf (measure length)" by simp
next
  fix c :: char and cs :: string
  have "length (tl (dropWhile (\<lambda>x. x \<noteq> CHR 0x22) cs)) \<le> length cs"
    using length_dropWhile_le [of "\<lambda>x. x \<noteq> CHR 0x22" cs] by simp
  then show "(tl (dropWhile (\<lambda>x. x \<noteq> CHR 0x22) cs), c # cs) \<in> measure length"
    by simp
next
  fix c :: char and cs :: string
  show "(cs, c # cs) \<in> measure length" by simp
qed

definition parse_list_value :: "string \<Rightarrow> pyval" where
  \<comment> \<open>lines 178 to 181: the list a bracketed value stands for\<close>
  "parse_list_value v =
     (let found = findall_quoted v;
          items = (if found = []
                   then map strip (split_str '','' (replace_char CHR '']'' [] (replace_char CHR ''['' [] v)))
                   else found)
      in PList (map (\<lambda>item. PStr (strip (strip_chars [CHR 0x22] item)))
                  (filter (\<lambda>item. strip item \<noteq> []) items)))"

definition text_line :: "string \<Rightarrow> pydict \<Rightarrow> pydict" where
  \<comment> \<open>the body of the loop of lines 166 to 181. A line that contains a colon splits in
      two at the first one, so the last case is never reached.\<close>
  "text_line raw classification =
     (let line = strip raw in
      if contains '':'' line \<and> \<not> startswith ''-'' line then
        (case split_once CHR '':'' line of
           p0 # p1 # rest \<Rightarrow>
             (let key = replace_char CHR ''-'' ''_'' (replace_char CHR '' '' ''_'' (lower (strip p0)));
                  v = strip p1
              in if key \<in> set scalar_fields
                 then dict_set classification key (PStr (strip_chars [CHR 0x22] v))
                 else if key \<in> set list_fields
                 then (if contains ''['' v \<and> contains '']'' v
                       then dict_set classification key (parse_list_value v)
                       else classification)
                 else classification)
         | _ \<Rightarrow> classification)
      else classification)"

definition default_classification :: pydict where
  \<comment> \<open>lines 146 to 160\<close>
  "default_classification =
     [(''region'', PStr ''unknown''),
      (''climate_zone'', PStr ''temperate''),
      (''fashion_market'', PStr ''international''),
      (''local_brands'', PList []),
      (''available_stores'', PList []),
      (''online_platforms'', PList []),
      (''cultural_considerations'', PList []),
      (''seasonal_info'', PStr ''Varies by season''),
      (''price_range_info'', PStr ''Varies''),
      (''popular_styles'', PList []),
      (''climate_recommendations'', empty_recommendations)]"

definition parse_text_classification_response :: "string \<Rightarrow> pydict" where
  "parse_text_classification_response response =
     fold text_line (split_str [CHR 0x0A] response) default_classification"

definition parse_llm_classification_response :: "services \<Rightarrow> string \<Rightarrow> error + pydict" where
  \<comment> \<open>only \<^verbatim>\<open>json.JSONDecodeError\<close> is handled at line 140: any other exception of
      \<^verbatim>\<open>json.loads\<close> leaves the function\<close>
  "parse_llm_classification_response sv response =
     (case search_braces response of
        None \<Rightarrow> Inr (parse_text_classification_response response)
      | Some json_str \<Rightarrow>
          (case json_loads sv json_str of
             DecodeError \<Rightarrow> Inr (parse_text_classification_response response)
           | Raises err \<Rightarrow> Inl err
           | Decoded classification \<Rightarrow>
               Inr (ensure_recommendations
                      (fold ensure_list list_fields
                         (fold ensure_required required_fields classification)))))"

section \<open>location.py: the fallback classification\<close>

definition fallback_data :: pydict where
  \<comment> \<open>lines 190 to 207\<close>
  "fallback_data =
     [(''region'', PStr ''unknown''),
      (''climate_zone'', PStr ''temperate''),
      (''fashion_market'', PStr ''international''),
      (''local_brands'', PList [PStr ''Zara'', PStr ''H&M'', PStr ''Uniqlo'']),
      (''available_stores'', PList [PStr ''Local malls'', PStr ''Online retailers'']),
      (''online_platforms'', PList [PStr ''Amazon'', PStr ''Local e-commerce'']),
      (''cultural_considerations'', PList [PStr ''Weather appropriate'', PStr ''Occasion suitable'']),
      (''seasonal_info'', PStr ''Four seasons with varying temperatures''),
      (''price_range_info'', PStr ''Mid-range pricing''),
      (''popular_styles'', PList [PStr ''Casual'', PStr ''Smart casual'', PStr ''Formal'']),
      (''climate_recommendations'',
         PDict [(''fabrics'', PList [PStr ''Cotton'', PStr ''Polyester blends'']),
                (''colors'', PList [PStr ''Neutral tones'', PStr ''Seasonal colors'']),
                (''styles'', PList [PStr ''Layerable pieces'', PStr ''Versatile basics'']),
                (''essentials'', PList [PStr ''Jacket'', PStr ''Comfortable shoes''])])]"

definition any_in :: "string list \<Rightarrow> string \<Rightarrow> bool" where
  \<comment> \<open>\<^verbatim>\<open>any(t in country for t in ts)\<close>\<close>
  "any_in ts country = list_ex (\<lambda>t. contains t country) ts"

definition get_basic_fallback_classification :: "pydict \<Rightarrow> error + pydict" where
  \<comment> \<open>\<^verbatim>\<open>.lower()\<close> exists on a string only: any other value under \<^verbatim>\<open>country\<close>, \<^verbatim>\<open>None\<close>
      included, raises AttributeError at line 187\<close>
  "get_basic_fallback_classification location_info =
     (case dict_get location_info ''country'' (PStr []) of
        PStr c \<Rightarrow>
          (let country = lower c
           in if any_in [''india'', ''pakistan'', ''bangladesh'', ''sri lanka''] country
              then Inr (dict_set (dict_set fallback_data ''region'' (PStr ''south_asia''))
                          ''climate_zone'' (PStr ''tropical''))
              else if any_in [''united states'', ''usa'', ''canada''] country
              then Inr (dict_set fallback_data ''region'' (PStr ''north_america''))
              else if any_in [''united kingdom'', ''france'', ''germany'', ''spain'', ''italy''] country
              then Inr (dict_set fallback_data ''region'' (PStr ''europe''))
              else Inr fallback_data)
      | other \<Rightarrow> Inl AttributeError)"

section \<open>location.py: the assistant\<close>

record assistant =
  location_cache :: "string \<rightharpoonup> pydict"
  classification_cache :: "string \<rightharpoonup> pydict"
  lookups :: "string list"
  requests :: "string list"
  classification_calls :: "prompt list"

definition py_str :: "services \<Rightarrow> pyval \<Rightarrow> string" where
  \<comment> \<open>\<^verbatim>\<open>str(v)\<close>, as an f-string formats a value\<close>
  "py_str sv v =
     (case v of
        PStr s \<Rightarrow> s
      | PNone \<Rightarrow> ''None''
      | PBool b \<Rightarrow> (if b then ''True'' else ''False'')
      | other \<Rightarrow> format_value sv other)"

definition location_key :: "services \<Rightarrow> pydict \<Rightarrow> string" where
  \<comment> \<open>line 52\<close>
  "location_key sv location_info =
     py_str sv (dict_get location_info ''city'' (PStr [])) @ ''-''
       @ py_str sv (dict_get location_info ''country'' (PStr []))"

definition get_llm_location_classification ::
  "services \<Rightarrow> pydict \<Rightarrow> assistant \<Rightarrow> (error + pydict) \<times> assistant" where
  "get_llm_location_classification sv location_info a =
     (let key = location_key sv location_info
      in case classification_cache a key of
           Some cached \<Rightarrow> (Inr cached, a)
         | None \<Rightarrow>
             (let display_name = dict_get location_info ''display_name'' (PStr []);
                  city = dict_get location_info ''city'' (PStr ''Unknown'');
                  country = dict_get location_info ''country'' (PStr ''Unknown'');
                  p = ClassificationPrompt display_name city country;
                  a1 = a\<lparr>classification_calls := classification_calls a @ [p]\<rparr>
              in case llm_chat_function sv (length (classification_calls a)) p of
                   Inl err \<Rightarrow> (get_basic_fallback_classification location_info, a1)
                 | Inr response \<Rightarrow>
                     (case parse_llm_classification_response sv response of
                        Inl err \<Rightarrow> (get_basic_fallback_classification location_info, a1)
                      | Inr classification \<Rightarrow>
                          (Inr classification,
                           a1\<lparr>classification_cache :=
                                 (classification_cache a1)(key \<mapsto> classification)\<rparr>))))"

definition assistant_get_enhanced_location_info ::
  "env \<Rightarrow> services \<Rightarrow> string \<Rightarrow> assistant \<Rightarrow> (error + pydict option) \<times> assistant" where
  \<comment> \<open>\<^verbatim>\<open>LocationBasedFashionAssistant.get_enhanced_location_info\<close> (lines 16 to 47)\<close>
  "assistant_get_enhanced_location_info e sv location a =
     (case location_cache a location of
        Some cached \<Rightarrow> (Inr (Some cached), a)
      | None \<Rightarrow>
          (case get_user_location_polygon e location (requests a) of
             (polygon, sent) \<Rightarrow>
               (let a1 = a\<lparr>lookups := lookups a @ [location], requests := sent\<rparr>
                in case polygon of
                     None \<Rightarrow> (Inr None, a1)
                   | Some polygon_data \<Rightarrow>
                       if polygon_data = [] then (Inr None, a1)
                       else
                         (case dict_get polygon_data ''address_details'' (PDict []) of
                            PDict address_details \<Rightarrow>
                              (let location_info =
                                     [(''original'', PStr location),
                                      (''display_name'', dict_get polygon_data ''display_name'' (PStr [])),
                                      (''city'', py_or (dict_get address_details ''city'' PNone)
                                                   (py_or (dict_get address_details ''town'' PNone)
                                                      (dict_get address_details ''village'' PNone))),
                                      (''state'', dict_get address_details ''state'' PNone),
                                      (''country'', dict_get address_details ''country'' PNone),
                                      (''latitude'', dict_get polygon_data ''latitude'' (PNum 0)),
                                      (''longitude'', dict_get polygon_data ''longitude'' (PNum 0)),
                                      (''source'', dict_get polygon_data ''source'' (PStr ''nominatim''))]
                               in case get_llm_location_classification sv location_info a1 of
                                    (Inl err, a2) \<Rightarrow> (Inl err, a2)
                                  | (Inr llm_classification, a2) \<Rightarrow>
                                      (let info = dict_update location_info llm_classification
                                       in (Inr (Some info),
                                           a2\<lparr>location_cache := (location_cache a2)(location \<mapsto> info)\<rparr>)))
                          | other \<Rightarrow> (Inl AttributeError, a1)))))"

section \<open>Vocabulary for the statements about fact extraction\<close>

definition first_label :: "string \<Rightarrow> string option" where
  \<comment> \<open>the label whose branch the \<^verbatim>\<open>if\<close>/\<^verbatim>\<open>elif\<close> chain of lines 121 to 136 takes\<close>
  "first_label line =
     (if contains ''Location:'' line then Some ''Location:''
      else if contains ''Body Type:'' line then Some ''Body Type:''
      else if contains ''Style Preferences:'' line then Some ''Style Preferences:''
      else if contains ''Budget:'' line then Some ''Budget:''
      else None)"

definition field_of :: "string \<Rightarrow> string" where
  \<comment> \<open>the key of \<^verbatim>\<open>user_preferences[user_id]\<close> that the branch of a label assigns\<close>
  "field_of label =
     (if label = ''Location:'' then ''location''
      else if label = ''Body Type:'' then ''body_type''
      else if label = ''Style Preferences:'' then ''style_preferences''
      else ''budget'')"

definition quiet :: "string \<Rightarrow> bool" where
  \<comment> \<open>a line that carries no label, or whose labelled value is the literal \<^verbatim>\<open>unknown\<close>\<close>
  "quiet line =
     (case first_label line of
        None \<Rightarrow> True
      | Some label \<Rightarrow> labelled_value label line = Inr ''unknown'')"

definition line_effect :: "string \<Rightarrow> pydict \<Rightarrow> pydict \<Rightarrow> bool" where
  \<comment> \<open>how one line of the response changes the dictionary \<open>d\<close> of a user into \<open>d'\<close>\<close>
  "line_effect line d d' =
     (case first_label line of
        None \<Rightarrow> d' = d
      | Some label \<Rightarrow>
          (\<exists>v. labelled_value label line = Inr v \<and>
             (if v = ''unknown'' then d' = d
              else if label = ''Location:''
              then d' = dict_set d ''location'' (PStr v)
                   \<or> (\<exists>x. d' = dict_set (dict_set d ''location'' (PStr v)) ''enhanced_location'' (PDict x))
              else d' = dict_set d (field_of label) (PStr v))))"

definition written_fields :: "string \<Rightarrow> string list" where
  \<comment> \<open>the keys of the user's dictionary that the branch taken for a line may assign\<close>
  "written_fields line =
     (case first_label line of
        None \<Rightarrow> []
      | Some label \<Rightarrow>
          if label = ''Location:'' then [''location'', ''enhanced_location'']
          else [field_of label])"

section \<open>Vocabulary for the statements about the classification parser\<close>

definition has_string :: "pydict \<Rightarrow> string \<Rightarrow> bool" where
  \<comment> \<open>the key is present and holds a string\<close>
  "has_string c f = (case map_of c f of Some (PStr s) \<Rightarrow> True | _ \<Rightarrow> False)"

definition has_list :: "pydict \<Rightarrow> string \<Rightarrow> bool" where
  \<comment> \<open>the key is present and holds a list\<close>
  "has_list c f = (case map_of c f of Some (PList xs) \<Rightarrow> True | _ \<Rightarrow> False)"

definition decoded :: "services \<Rightarrow> string \<Rightarrow> pydict option" where
  \<comment> \<open>the dictionary \<^verbatim>\<open>json.loads\<close> decodes from the braces of the response, if any\<close>
  "decoded sv response =
     (case search_braces response of
        None \<Rightarrow> None
      | Some json_str \<Rightarrow>
          (case json_loads sv json_str of Decoded given \<Rightarrow> Some given | _ \<Rightarrow> None))"

definition line_key :: "string \<Rightarrow> string option" where
  \<comment> \<open>the key that lines 168 to 170 read from a line of a prose response, if any\<close>
  "line_key raw =
     (let line = strip raw in
      if contains '':'' line \<and> \<not> startswith ''-'' line then
        (case split_once CHR '':'' line of
           p0 # p1 # rest \<Rightarrow>
             Some (replace_char CHR ''-'' ''_'' (replace_char CHR '' '' ''_'' (lower (strip p0))))
         | _ \<Rightarrow> None)
      else None)"

definition text_shape :: "pydict \<Rightarrow> bool" where
  \<comment> \<open>what the line scan keeps true of the record it builds\<close>
  "text_shape c =
     (list_all (has_string c) scalar_fields \<and> list_all (has_list c) list_fields
      \<and> map_of c ''climate_recommendations'' = Some empty_recommendations)"

section \<open>Concrete environments\<close>

definition world0 :: world where
  \<comment> \<open>a fresh process: no user known, nothing called yet\<close>
  "world0 = \<lparr>user_preferences = Map.empty, llm_calls = [], draws = 0, http_calls = []\<rparr>"

definition env_down :: env where
  \<comment> \<open>every completion attempt raises, the geocoder is unreachable\<close>
  "env_down = \<lparr>api_key = Some ''key'', gemini_model_var = None, choice = (\<lambda>n. 2),
     generate = (\<lambda>n m p. None), http_get = (\<lambda>n q. RequestFailed), to_float = (\<lambda>v. None)\<rparr>"

definition unknown_response :: string where
  \<comment> \<open>a response of the extraction model in which every labelled value is \<^verbatim>\<open>unknown\<close>\<close>
  "unknown_response =
     ''Location: unknown\<newline>Body Type: unknown\<newline>Style Preferences: unknown\<newline>Budget: unknown''"

definition env_unknown :: env where
  \<comment> \<open>the completion service always answers \<open>unknown_response\<close>\<close>
  "env_unknown = \<lparr>api_key = Some ''key'', gemini_model_var = None, choice = (\<lambda>n. 2),
     generate = (\<lambda>n m p. Some unknown_response), http_get = (\<lambda>n q. RequestFailed),
     to_float = (\<lambda>v. None)\<rparr>"

definition world_paris :: world where
  \<comment> \<open>one known user, with a location and a budget on record\<close>
  "world_paris = \<lparr>user_preferences =
       [''web_user'' \<mapsto> [(''location'', PStr ''Paris''), (''budget'', PStr ''$200'')]],
     llm_calls = [], draws = 0, http_calls = []\<rparr>"



definition world_user :: world where
  \<comment> \<open>one known user, with a budget on record\<close>
  "world_user = \<lparr>user_preferences = [''web_user'' \<mapsto> [(''budget'', PStr ''$200'')]],
     llm_calls = [], draws = 0, http_calls = []\<rparr>"



definition assistant0 :: assistant where
  \<comment> \<open>a fresh assistant: two empty caches, nothing called yet\<close>
  "assistant0 = \<lparr>location_cache = Map.empty, classification_cache = Map.empty, lookups = [],
     requests = [], classification_calls = []\<rparr>"


definition env_paris :: env where
  \<comment> \<open>the geocoder knows every place as Paris\<close>
  "env_paris = \<lparr>api_key = Some ''key'', gemini_model_var = None, choice = (\<lambda>n. 2),
     generate = (\<lambda>n m p. None),
     http_get = (\<lambda>n q. Response 200 (Some (PList [PDict
        [(''display_name'', PStr ''Paris, France''), (''lat'', PStr ''48.85''),
         (''lon'', PStr ''2.35'')]]))),
     to_float = (\<lambda>v. if v = PStr ''48.85'' then Some (PNum (977 / 20))
                      else if v = PStr ''2.35'' then Some (PNum (47 / 20)) else None)\<rparr>"

definition env_nowhere :: env where
  \<comment> \<open>the geocoder answers every query with an empty list of results\<close>
  "env_nowhere = \<lparr>api_key = Some ''key'', gemini_model_var = None, choice = (\<lambda>n. 2),
     generate = (\<lambda>n m p. None), http_get = (\<lambda>n q. Response 200 (Some (PList []))),
     to_float = (\<lambda>v. None)\<rparr>"

definition services_text :: services where
  \<comment> \<open>the injected completion function answers in prose\<close>
  "services_text = \<lparr>llm_chat_function = (\<lambda>n p. Inr ''Region: europe''),
     json_loads = (\<lambda>s. DecodeError), format_value = (\<lambda>v. ''?'')\<rparr>"

definition paris_info :: pydict where
  \<comment> \<open>the record that the enrichment of Paris returns\<close>
  "paris_info =
     [(''original'', PStr ''Paris''), (''display_name'', PStr ''Paris, France''),
      (''city'', PNone), (''state'', PNone), (''country'', PNone),
      (''latitude'', PNum (977 / 20)), (''longitude'', PNum (47 / 20)),
      (''source'', PStr ''nominatim''),
      (''region'', PStr ''europe''), (''climate_zone'', PStr ''temperate''),
      (''fashion_market'', PStr ''international''), (''local_brands'', PList []),
      (''available_stores'', PList []), (''online_platforms'', PList []),
      (''cultural_considerations'', PList []), (''seasonal_info'', PStr ''Varies by season''),
      (''price_range_info'', PStr ''Varies''), (''popular_styles'', PList []),
      (''climate_recommendations'', empty_recommendations)]"

definition paris_classification :: pydict where
  \<comment> \<open>the classification read from the prose answer \<^verbatim>\<open>Region: europe\<close>\<close>
  "paris_classification =
     [(''region'', PStr ''europe''), (''climate_zone'', PStr ''temperate''),
      (''fashion_market'', PStr ''international''), (''local_brands'', PList []),
      (''available_stores'', PList []), (''online_platforms'', PList []),
      (''cultural_considerations'', PList []), (''seasonal_info'', PStr ''Varies by season''),
      (''price_range_info'', PStr ''Varies''), (''popular_styles'', PList []),
      (''climate_recommendations'', empty_recommendations)]"

definition assistant_paris :: assistant where
  \<comment> \<open>the assistant after one enrichment of Paris\<close>
  "assistant_paris = \<lparr>location_cache = [''Paris'' \<mapsto> paris_info],
     classification_cache = [''None-None'' \<mapsto> paris_classification],
     lookups = [''Paris''], requests = [''Paris''],
     classification_calls = [ClassificationPrompt (PStr ''Paris, France'') PNone PNone]\<rparr>"

definition response_three_fields :: string where
  \<comment> \<open>a JSON object with the three required fields and nothing else\<close>
  \<open>response_three_fields =
     ''{"region":"south_asia","climate_zone":"tropical","fashion_market":"indian"}''\<close>

definition services_json :: services where
  \<comment> \<open>the injected completion function answers \<open>response_three_fields\<close>, which
      \<^verbatim>\<open>json.loads\<close> decodes\<close>
  "services_json = \<lparr>llm_chat_function = (\<lambda>n p. Inr response_three_fields),
     json_loads = (\<lambda>s. if s = response_three_fields
                        then Decoded [(''region'', PStr ''south_asia''),
                                      (''climate_zone'', PStr ''tropical''),
                                      (''fashion_market'', PStr ''indian'')]
                        else DecodeError),
     format_value = (\<lambda>v. ''?'')\<rparr>"

definition three_fields_classification :: pydict where
  \<comment> \<open>what the parser returns for \<open>response_three_fields\<close>\<close>
  "three_fields_classification =
     [(''region'', PStr ''south_asia''), (''climate_zone'', PStr ''tropical''),
      (''fashion_market'', PStr ''indian''), (''local_brands'', PList []),
      (''available_stores'', PList []), (''online_platforms'', PList []),
      (''cultural_considerations'', PList []), (''popular_styles'', PList []),
      (''climate_recommendations'', empty_recommendations)]"

section \<open>The completion call: degradation and the fallback model\<close>

lemma select_model_llm_calls:
  "select_model e tc rnd w = (r, w1) \<Longrightarrow> llm_calls w1 = llm_calls w"
  by (auto simp: select_model_def random_choice_def split: if_splits sum.splits)

text \<open>
  C5. If the attempt with the selected (primary) model raises and the attempt with the
  fallback model raises too, \<^verbatim>\<open>_llm_chat\<close> returns the fixed apology string as a normal
  result: no exception reaches its caller. The primary model is the one the selection
  produced; the two attempts are the next two completion attempts of the process.
\<close>

theorem llm_chat_degrades:
  assumes sel: "select_model e tc rnd w = (Inr m, w1)"
    and primary: "generate e (length (llm_calls w)) m p = None"
    and fallback: "generate e (Suc (length (llm_calls w))) (fallback_model_for m) p = None"
  shows "fst (llm_chat e p tc rnd w) = Inr apology"
  using assms select_model_llm_calls [OF sel]
  by (simp add: llm_chat_def generate_content_def Let_def)

theorem llm_chat_degrades_witness:
  "select_model env_down ''medium'' True world0
     = (Inr ''models/gemini-2.0-flash'', world0\<lparr>draws := 1\<rparr>)
   \<and> generate env_down (length (llm_calls world0)) ''models/gemini-2.0-flash''
        (IntentPrompt ''hello there'') = None
   \<and> generate env_down (Suc (length (llm_calls world0)))
        (fallback_model_for ''models/gemini-2.0-flash'') (IntentPrompt ''hello there'') = None
   \<and> fst (llm_chat env_down (IntentPrompt ''hello there'') ''medium'' True world0) = Inr apology"
proof -
  have sel: "select_model env_down ''medium'' True world0
               = (Inr ''models/gemini-2.0-flash'', world0\<lparr>draws := 1\<rparr>)"
    by (simp add: select_model_def get_gemini_config_def env_down_def random_choice_def
        GEMINI_MODELS_def world0_def)
  have g: "\<And>n m p. generate env_down n m p = None"
    by (simp add: env_down_def)
  show ?thesis
    using sel g llm_chat_degrades [OF sel g g] by simp
qed

text \<open>
  C9. When the first completion attempt fails after a model \<open>m\<close> was selected, the call
  makes exactly one more attempt, with the same prompt and a model \<open>fb\<close> that differs from
  \<open>m\<close>: \<open>fb\<close> is \<^verbatim>\<open>models/gemini-1.5-flash\<close> unless \<open>m\<close> is that model, and then it is
  \<^verbatim>\<open>models/gemini-2.0-flash\<close>.
\<close>

theorem llm_chat_retry_model:
  assumes sel: "select_model e tc rnd w = (Inr m, w1)"
    and primary: "generate e (length (llm_calls w)) m p = None"
  shows "\<exists>fb. llm_calls (snd (llm_chat e p tc rnd w)) = llm_calls w @ [(m, p), (fb, p)]
           \<and> fb \<noteq> m
           \<and> fb = (if m = ''models/gemini-1.5-flash'' then ''models/gemini-2.0-flash''
                   else ''models/gemini-1.5-flash'')"
  using assms select_model_llm_calls [OF sel]
  by (auto simp add: llm_chat_def generate_content_def Let_def fallback_model_for_def
      split: option.splits)

theorem llm_chat_retry_model_witness:
  "select_model env_down ''simple'' False world0 = (Inr ''models/gemini-1.5-flash'', world0)
   \<and> generate env_down (length (llm_calls world0)) ''models/gemini-1.5-flash''
        (IntentPrompt ''hello there'') = None
   \<and> llm_calls (snd (llm_chat env_down (IntentPrompt ''hello there'') ''simple'' False world0))
       = [(''models/gemini-1.5-flash'', IntentPrompt ''hello there''),
          (''models/gemini-2.0-flash'', IntentPrompt ''hello there'')]"
proof -
  have sel: "select_model env_down ''simple'' False world0
               = (Inr ''models/gemini-1.5-flash'', world0)"
    by (simp add: select_model_def get_model_for_task_def)
  have g: "\<And>n m p. generate env_down n m p = None"
    by (simp add: env_down_def)
  show ?thesis
    using sel g llm_chat_retry_model [OF sel g, of "IntentPrompt ''hello there''"]
    by (auto simp: world0_def)
qed

section \<open>Fact extraction, line by line\<close>

lemma split_str_nonempty: "split_str sep s \<noteq> []"
  by (subst split_str.simps) (simp split: option.splits)

lemma split_str_second:
  assumes "sep \<noteq> []" and "contains sep s"
  shows "\<exists>y. second (split_str sep s) = Inr y"
proof -
  from assms(2) obtain i where i: "find_sub sep s = Some i"
    by (auto simp: contains_def)
  obtain y ys where r: "split_str sep (drop (i + length sep) s) = y # ys"
    using split_str_nonempty [of sep "drop (i + length sep) s"] by (cases "split_str sep (drop (i + length sep) s)") auto
  have "split_str sep s = take i s # y # ys"
    using assms(1) i r by (subst split_str.simps) simp
  then show ?thesis by (simp add: second_def)
qed

lemma labelled_value_ok:
  "label \<noteq> [] \<Longrightarrow> contains label line \<Longrightarrow> \<exists>v. labelled_value label line = Inr v"
  using split_str_second [of label line] by (auto simp: labelled_value_def)

lemma store_pref_ok:
  "user_preferences w user_id = Some d \<Longrightarrow>
   store_pref user_id key v w =
     (Inr (), w\<lparr>user_preferences := (user_preferences w)(user_id \<mapsto> dict_set d key v)\<rparr>)"
  by (simp add: store_pref_def)

lemma get_enhanced_location_info_frame:
  "get_enhanced_location_info e loc w = (r, w') \<Longrightarrow>
     user_preferences w' = user_preferences w \<and> llm_calls w' = llm_calls w \<and> draws w' = draws w"
  by (auto simp: get_enhanced_location_info_def split: if_splits prod.splits)

lemma simple_branch:
  assumes user: "user_preferences w user_id = Some d"
    and v: "labelled_value label line = Inr v"
  shows "\<exists>w' d'. (case labelled_value label line of
           Inl err \<Rightarrow> (Inl err, w)
         | Inr x \<Rightarrow> if x \<noteq> ''unknown'' then store_pref user_id key (PStr x) w else (Inr (), w))
        = (Inr (), w')
       \<and> user_preferences w' = (user_preferences w)(user_id \<mapsto> d')
       \<and> llm_calls w' = llm_calls w \<and> draws w' = draws w
       \<and> (if v = ''unknown'' then d' = d else d' = dict_set d key (PStr v))"
  using user v by (auto simp: store_pref_ok map_upd_triv)

lemma location_branch:
  assumes user: "user_preferences w user_id = Some d"
    and v: "labelled_value ''Location:'' line = Inr v"
  shows "\<exists>w' d'. (case labelled_value ''Location:'' line of
           Inl err \<Rightarrow> (Inl err, w)
         | Inr location \<Rightarrow>
             if location \<noteq> ''unknown'' then
               (case store_pref user_id ''location'' (PStr location) w of
                  (Inl err, w1) \<Rightarrow> (Inl err, w1)
                | (Inr u, w1) \<Rightarrow>
                    (case get_enhanced_location_info e location w1 of
                       (None, w2) \<Rightarrow> (Inr (), w2)
                     | (Some enhanced_location, w2) \<Rightarrow>
                         if enhanced_location \<noteq> []
                         then store_pref user_id ''enhanced_location'' (PDict enhanced_location) w2
                         else (Inr (), w2)))
             else (Inr (), w))
        = (Inr (), w')
       \<and> user_preferences w' = (user_preferences w)(user_id \<mapsto> d')
       \<and> llm_calls w' = llm_calls w \<and> draws w' = draws w
       \<and> (if v = ''unknown'' then d' = d
           else d' = dict_set d ''location'' (PStr v)
                \<or> (\<exists>x. d' = dict_set (dict_set d ''location'' (PStr v)) ''enhanced_location'' (PDict x)))"
proof (cases "v = ''unknown''")
  case True
  with user v show ?thesis by (auto simp: map_upd_triv)
next
  case False
  let ?w1 = "w\<lparr>user_preferences := (user_preferences w)(user_id \<mapsto> dict_set d ''location'' (PStr v))\<rparr>"
  obtain r w2 where g: "get_enhanced_location_info e v ?w1 = (r, w2)"
    by (cases "get_enhanced_location_info e v ?w1") auto
  from get_enhanced_location_info_frame [OF g]
  have f: "user_preferences w2 = user_preferences ?w1" "llm_calls w2 = llm_calls w" "draws w2 = draws w"
    by simp_all
  have u2: "user_preferences w2 user_id = Some (dict_set d ''location'' (PStr v))"
    by (simp add: f)
  show ?thesis
    using False v g f store_pref_ok [OF user] store_pref_ok [OF u2]
    by (cases r) auto
qed

lemma extract_line_effect:
  assumes user: "user_preferences w user_id = Some d"
  shows "\<exists>w' d'. extract_line e user_id line w = (Inr (), w')
          \<and> user_preferences w' = (user_preferences w)(user_id \<mapsto> d')
          \<and> llm_calls w' = llm_calls w \<and> draws w' = draws w
          \<and> line_effect line d d'"
proof -
  consider (loc) "contains ''Location:'' line"
    | (body) "\<not> contains ''Location:'' line" "contains ''Body Type:'' line"
    | (style) "\<not> contains ''Location:'' line" "\<not> contains ''Body Type:'' line"
        "contains ''Style Preferences:'' line"
    | (budget) "\<not> contains ''Location:'' line" "\<not> contains ''Body Type:'' line"
        "\<not> contains ''Style Preferences:'' line" "contains ''Budget:'' line"
    | (none) "\<not> contains ''Location:'' line" "\<not> contains ''Body Type:'' line"
        "\<not> contains ''Style Preferences:'' line" "\<not> contains ''Budget:'' line"
    by blast
  then show ?thesis
  proof cases
    case loc
    then obtain v where v: "labelled_value ''Location:'' line = Inr v"
      using labelled_value_ok [of "''Location:''" line] by auto
    from loc have fl: "first_label line = Some ''Location:''" by (simp add: first_label_def)
    from location_branch [OF user v, of e] obtain w' d' where
      r: "(case labelled_value ''Location:'' line of
           Inl err \<Rightarrow> (Inl err, w)
         | Inr location \<Rightarrow>
             if location \<noteq> ''unknown'' then
               (case store_pref user_id ''location'' (PStr location) w of
                  (Inl err, w1) \<Rightarrow> (Inl err, w1)
                | (Inr u, w1) \<Rightarrow>
                    (case get_enhanced_location_info e location w1 of
                       (None, w2) \<Rightarrow> (Inr (), w2)
                     | (Some enhanced_location, w2) \<Rightarrow>
                         if enhanced_location \<noteq> []
                         then store_pref user_id ''enhanced_location'' (PDict enhanced_location) w2
                         else (Inr (), w2)))
             else (Inr (), w)) = (Inr (), w')"
      and p: "user_preferences w' = (user_preferences w)(user_id \<mapsto> d')"
        "llm_calls w' = llm_calls w" "draws w' = draws w"
      and eff: "if v = ''unknown'' then d' = d
           else d' = dict_set d ''location'' (PStr v)
                \<or> (\<exists>x. d' = dict_set (dict_set d ''location'' (PStr v)) ''enhanced_location'' (PDict x))"
      by blast
    have "extract_line e user_id line w = (Inr (), w')"
      unfolding extract_line_def using loc r by (simp only: if_True)
    moreover have "line_effect line d d'"
      using eff v by (simp add: line_effect_def fl)
    ultimately show ?thesis using p by blast
  next
    case body
    then obtain v where v: "labelled_value ''Body Type:'' line = Inr v"
      using labelled_value_ok [of "''Body Type:''" line] by auto
    from body have fl: "first_label line = Some ''Body Type:''" by (simp add: first_label_def)
    from simple_branch [OF user v, of "''body_type''"] obtain w' d' where
      r: "(case labelled_value ''Body Type:'' line of
           Inl err \<Rightarrow> (Inl err, w)
         | Inr x \<Rightarrow> if x \<noteq> ''unknown'' then store_pref user_id ''body_type'' (PStr x) w else (Inr (), w))
        = (Inr (), w')"
      and p: "user_preferences w' = (user_preferences w)(user_id \<mapsto> d')"
        "llm_calls w' = llm_calls w" "draws w' = draws w"
      and eff: "if v = ''unknown'' then d' = d else d' = dict_set d ''body_type'' (PStr v)"
      by blast
    have "extract_line e user_id line w = (Inr (), w')"
      unfolding extract_line_def using body r by (simp only: if_True if_False)
    moreover have "line_effect line d d'"
      using eff v by (simp add: line_effect_def fl field_of_def)
    ultimately show ?thesis using p by blast
  next
    case style
    then obtain v where v: "labelled_value ''Style Preferences:'' line = Inr v"
      using labelled_value_ok [of "''Style Preferences:''" line] by auto
    from style have fl: "first_label line = Some ''Style Preferences:''"
      by (simp add: first_label_def)
    from simple_branch [OF user v, of "''style_preferences''"] obtain w' d' where
      r: "(case labelled_value ''Style Preferences:'' line of
           Inl err \<Rightarrow> (Inl err, w)
         | Inr x \<Rightarrow> if x \<noteq> ''unknown'' then store_pref user_id ''style_preferences'' (PStr x) w else (Inr (), w))
        = (Inr (), w')"
      and p: "user_preferences w' = (user_preferences w)(user_id \<mapsto> d')"
        "llm_calls w' = llm_calls w" "draws w' = draws w"
      and eff: "if v = ''unknown'' then d' = d else d' = dict_set d ''style_preferences'' (PStr v)"
      by blast
    have "extract_line e user_id line w = (Inr (), w')"
      unfolding extract_line_def using style r by (simp only: if_True if_False)
    moreover have "line_effect line d d'"
      using eff v by (simp add: line_effect_def fl field_of_def)
    ultimately show ?thesis using p by blast
  next
    case budget
    then obtain v where v: "labelled_value ''Budget:'' line = Inr v"
      using labelled_value_ok [of "''Budget:''" line] by auto
    from budget have fl: "first_label line = Some ''Budget:''" by (simp add: first_label_def)
    from simple_branch [OF user v, of "''budget''"] obtain w' d' where
      r: "(case labelled_value ''Budget:'' line of
           Inl err \<Rightarrow> (Inl err, w)
         | Inr x \<Rightarrow> if x \<noteq> ''unknown'' then store_pref user_id ''budget'' (PStr x) w else (Inr (), w))
        = (Inr (), w')"
      and p: "user_preferences w' = (user_preferences w)(user_id \<mapsto> d')"
        "llm_calls w' = llm_calls w" "draws w' = draws w"
      and eff: "if v = ''unknown'' then d' = d else d' = dict_set d ''budget'' (PStr v)"
      by blast
    have "extract_line e user_id line w = (Inr (), w')"
      unfolding extract_line_def using budget r by (simp only: if_True if_False)
    moreover have "line_effect line d d'"
      using eff v by (simp add: line_effect_def fl field_of_def)
    ultimately show ?thesis using p by blast
  next
    case none
    then have fl: "first_label line = None" by (simp add: first_label_def)
    have "extract_line e user_id line w = (Inr (), w)"
      unfolding extract_line_def using none by (simp only: if_False)
    moreover have "user_preferences w = (user_preferences w)(user_id \<mapsto> d)"
      using user by (simp add: map_upd_triv)
    moreover have "line_effect line d d" by (simp add: line_effect_def fl)
    ultimately show ?thesis by blast
  qed
qed

lemma map_of_dict_set: "map_of (dict_set d k v) = (map_of d)(k \<mapsto> v)"
  by (simp add: dict_set_def update_conv')

lemma line_effect_frame:
  assumes "line_effect line d d'" and "k \<notin> set (written_fields line)"
  shows "map_of d' k = map_of d k"
  using assms
  by (auto simp: line_effect_def written_fields_def map_of_dict_set
      split: option.splits if_splits)

lemma extract_line_quiet:
  assumes "quiet line"
  shows "extract_line e user_id line w = (Inr (), w)"
  using assms
  by (auto simp: quiet_def first_label_def extract_line_def split: if_splits)

lemma extract_lines_quiet:
  "list_all quiet lines \<Longrightarrow> extract_lines e user_id lines w = (Inr (), w)"
  by (induction lines arbitrary: w) (simp_all add: extract_line_quiet)


lemma extract_lines_ok:
  assumes "user_preferences w user_id = Some d"
  shows "\<exists>w' d'. extract_lines e user_id lines w = (Inr (), w')
           \<and> user_preferences w' = (user_preferences w)(user_id \<mapsto> d')
           \<and> llm_calls w' = llm_calls w \<and> draws w' = draws w"
  using assms
proof (induction lines arbitrary: w d)
  case Nil
  then show ?case
    by (intro exI [of _ w] exI [of _ d]) (simp add: map_upd_triv)
next
  case (Cons line lines)
  from extract_line_effect [OF Cons.prems, of e line] obtain w1 d1 where
    s: "extract_line e user_id line w = (Inr (), w1)"
    and p: "user_preferences w1 = (user_preferences w)(user_id \<mapsto> d1)"
      "llm_calls w1 = llm_calls w" "draws w1 = draws w"
    by blast
  from p(1) have u1: "user_preferences w1 user_id = Some d1" by simp
  from Cons.IH [OF u1] obtain w' d' where
    r: "extract_lines e user_id lines w1 = (Inr (), w')"
    and q: "user_preferences w' = (user_preferences w1)(user_id \<mapsto> d')"
      "llm_calls w' = llm_calls w1" "draws w' = draws w1"
    by blast
  have "extract_lines e user_id (line # lines) w = (Inr (), w')"
    using s r by simp
  moreover have "user_preferences w' = (user_preferences w)(user_id \<mapsto> d')"
    using p q by simp
  ultimately show ?case using p q
    by (intro exI [of _ w'] exI [of _ d']) simp
qed

lemma llm_chat_frame:
  assumes "llm_chat e p tc rnd w = (r, w1)"
  shows "user_preferences w1 = user_preferences w \<and> http_calls w1 = http_calls w"
  using assms
  by (auto simp: llm_chat_def select_model_def random_choice_def generate_content_def Let_def
      split: if_splits sum.splits prod.splits option.splits)

lemma llm_chat_with_key:
  assumes "api_key e = Some k" and "k \<noteq> []"
  shows "\<exists>text w1 m. llm_chat e p tc True w = (Inr text, w1)
           \<and> (llm_calls w1 = llm_calls w @ [(m, p)]
              \<or> llm_calls w1 = llm_calls w @ [(m, p), (fallback_model_for m, p)])"
  using assms
  by (auto simp: llm_chat_def select_model_def random_choice_def generate_content_def Let_def
      get_gemini_config_def GEMINI_MODELS_def
      split: if_splits sum.splits prod.splits option.splits)

section \<open>Fact extraction: unknown values and the budget\<close>

lemma extract_user_info_known_user:
  assumes chat: "llm_chat e (ExtractPrompt message) ''medium'' True w = (Inr extracted, w1)"
    and user: "user_preferences w user_id = Some d"
  shows "extract_user_info e message user_id w =
     (case extract_lines e user_id (split_str [CHR 0x0A] (strip extracted)) w1 of
        (Inl err, w3) \<Rightarrow> (Inl err, w3)
      | (Inr u, w3) \<Rightarrow>
          (case user_preferences w3 user_id of
             None \<Rightarrow> (Inl KeyError, w3)
           | Some d \<Rightarrow> (Inr d, w3)))"
proof -
  from llm_chat_frame [OF chat] user have "user_preferences w1 user_id = Some d" by simp
  then show ?thesis
    by (simp add: extract_user_info_def chat)
qed

lemma chat_unknown:
  "llm_chat env_unknown (ExtractPrompt ''hi'') ''medium'' True world_paris =
     (Inr unknown_response,
      world_paris\<lparr>llm_calls := [(''models/gemini-2.0-flash'', ExtractPrompt ''hi'')], draws := 1\<rparr>)"
  by (simp add: llm_chat_def select_model_def get_gemini_config_def env_unknown_def
      random_choice_def GEMINI_MODELS_def world_paris_def generate_content_def
      unknown_response_def strip_def isspace_def)

lemma lines_unknown:
  "split_str [CHR 0x0A] (strip unknown_response) =
     [''Location: unknown'', ''Body Type: unknown'', ''Style Preferences: unknown'',
      ''Budget: unknown'']"
  by (simp add: unknown_response_def strip_def isspace_def split_str.simps)

lemma quiet_unknown:
  "quiet ''Location: unknown''" "quiet ''Body Type: unknown''"
  "quiet ''Style Preferences: unknown''" "quiet ''Budget: unknown''"
  by (simp_all add: quiet_def first_label_def contains_def labelled_value_def second_def
      split_str.simps strip_def isspace_def)

text \<open>
  C6. For a user whose record exists, fact extraction on a response of the model in which
  every line is quiet (it carries no label, or the value after its first label is the
  literal \<^verbatim>\<open>unknown\<close>; in particular a response whose four labelled values are all
  \<^verbatim>\<open>unknown\<close>) returns the stored record as it was and leaves \<^verbatim>\<open>user_preferences\<close>
  unchanged.
\<close>

theorem extract_user_info_all_unknown:
  assumes chat: "llm_chat e (ExtractPrompt message) ''medium'' True w = (Inr extracted, w1)"
    and user: "user_preferences w user_id = Some d"
    and unknown: "list_all quiet (split_str [CHR 0x0A] (strip extracted))"
  shows "fst (extract_user_info e message user_id w) = Inr d
       \<and> user_preferences (snd (extract_user_info e message user_id w)) = user_preferences w"
proof -
  from llm_chat_frame [OF chat] have f: "user_preferences w1 = user_preferences w" by simp
  have "extract_user_info e message user_id w = (Inr d, w1)"
    using user f
    by (simp add: extract_user_info_known_user [OF chat user] extract_lines_quiet [OF unknown])
  then show ?thesis using f by simp
qed

theorem extract_user_info_all_unknown_witness:
  "llm_chat env_unknown (ExtractPrompt ''hi'') ''medium'' True world_paris =
     (Inr unknown_response,
      world_paris\<lparr>llm_calls := [(''models/gemini-2.0-flash'', ExtractPrompt ''hi'')], draws := 1\<rparr>)
   \<and> user_preferences world_paris ''web_user''
       = Some [(''location'', PStr ''Paris''), (''budget'', PStr ''$200'')]
   \<and> list_all quiet (split_str [CHR 0x0A] (strip unknown_response))
   \<and> fst (extract_user_info env_unknown ''hi'' ''web_user'' world_paris)
       = Inr [(''location'', PStr ''Paris''), (''budget'', PStr ''$200'')]
   \<and> user_preferences (snd (extract_user_info env_unknown ''hi'' ''web_user'' world_paris))
       = user_preferences world_paris"
proof -
  have user: "user_preferences world_paris ''web_user''
       = Some [(''location'', PStr ''Paris''), (''budget'', PStr ''$200'')]"
    by (simp add: world_paris_def)
  have q: "list_all quiet (split_str [CHR 0x0A] (strip unknown_response))"
    by (simp add: lines_unknown quiet_unknown)
  show ?thesis
    using chat_unknown user q extract_user_info_all_unknown [OF chat_unknown user q]
    by simp
qed










section \<open>Fact extraction: one field per line\<close>

text \<open>
  C10. For a user whose record \<open>d\<close> exists, one line of the response never raises and
  changes the record as the first label it contains, in the order Location, Body Type,
  Style Preferences, Budget, prescribes (\<open>line_effect\<close>): nothing without a label or with
  the value \<^verbatim>\<open>unknown\<close>; otherwise the field of that label is assigned the trimmed text
  after the label's first occurrence, and for a Location line the entry
  \<^verbatim>\<open>enhanced_location\<close> may be assigned as well. Every key outside \<open>written_fields\<close>
  keeps its entry. Labels are matched as case-sensitive substrings.
\<close>

theorem extract_line_one_field:
  assumes user: "user_preferences w user_id = Some d"
  shows "\<exists>w' d'. extract_line e user_id line w = (Inr (), w')
          \<and> user_preferences w' = (user_preferences w)(user_id \<mapsto> d')
          \<and> line_effect line d d'
          \<and> (\<forall>k. k \<in> set (written_fields line) \<or> map_of d' k = map_of d k)"
proof -
  from extract_line_effect [OF user, of e line] obtain w' d' where
    r: "extract_line e user_id line w = (Inr (), w')"
      "user_preferences w' = (user_preferences w)(user_id \<mapsto> d')"
      "line_effect line d d'"
    by blast
  from line_effect_frame [OF r(3)]
  have "\<forall>k. k \<in> set (written_fields line) \<or> map_of d' k = map_of d k" by blast
  with r show ?thesis by blast
qed

theorem extract_line_one_field_witness:
  "user_preferences world_user ''web_user'' = Some [(''budget'', PStr ''$200'')]
   \<and> (\<exists>w' d'. extract_line env_down ''web_user'' ''Location: Paris Budget: $5'' world_user
                  = (Inr (), w')
          \<and> user_preferences w' = (user_preferences world_user)(''web_user'' \<mapsto> d')
          \<and> line_effect ''Location: Paris Budget: $5'' [(''budget'', PStr ''$200'')] d'
          \<and> (\<forall>k. k \<in> set (written_fields ''Location: Paris Budget: $5'')
                 \<or> map_of d' k = map_of [(''budget'', PStr ''$200'')] k))"
proof -
  have user: "user_preferences world_user ''web_user'' = Some [(''budget'', PStr ''$200'')]"
    by (simp add: world_user_def)
  show ?thesis
    using user extract_line_one_field [OF user, of env_down "''Location: Paris Budget: $5''"]
    by simp
qed

text \<open>
  A line with the labels \<^verbatim>\<open>Location:\<close> and \<^verbatim>\<open>Budget:\<close> is a Location line; the stored
  budget is kept, and both \<^verbatim>\<open>location\<close> and \<^verbatim>\<open>enhanced_location\<close> are assigned.
\<close>

lemma multi_label_line:
  "first_label ''Location: Paris Budget: $5'' = Some ''Location:''"
  "written_fields ''Location: Paris Budget: $5'' = [''location'', ''enhanced_location'']"
  "user_preferences (snd (extract_line env_down ''web_user'' ''Location: Paris Budget: $5'' world_user))
     ''web_user''
   = Some [(''budget'', PStr ''$200''), (''location'', PStr ''Paris Budget: $5''),
           (''enhanced_location'', PDict [(''original_query'', PStr ''Paris Budget: $5''),
                                          (''polygon_available'', PBool False)])]"
  by (simp_all add: first_label_def written_fields_def contains_def extract_line_def
      labelled_value_def second_def split_str.simps strip_def isspace_def store_pref_def
      world_user_def get_enhanced_location_info_def get_user_location_polygon_def
      lower_def lower_char_def env_down_def dict_set_def char_of_eq_iff)

text \<open>
  The line \<^verbatim>\<open>Relocation: Paris\<close> does not contain the label \<^verbatim>\<open>Location:\<close> (the label
  begins with a capital L): it carries no label and changes nothing.
\<close>

theorem relocation_not_a_location_line:
  "contains ''Location:'' ''Relocation: Paris'' = False
   \<and> first_label ''Relocation: Paris'' = None
   \<and> extract_line env_down ''web_user'' ''Relocation: Paris'' world_user = (Inr (), world_user)"
  by (simp add: first_label_def contains_def extract_line_def)

section \<open>The response pipeline: the two shortcuts\<close>

lemma extract_user_info_ok:
  assumes key: "api_key e = Some k" "k \<noteq> []"
  shows "\<exists>d w' m. extract_user_info e message user_id w = (Inr d, w')
           \<and> (llm_calls w' = llm_calls w @ [(m, ExtractPrompt message)]
              \<or> llm_calls w' = llm_calls w @ [(m, ExtractPrompt message),
                                               (fallback_model_for m, ExtractPrompt message)])"
proof -
  from llm_chat_with_key [OF key, of "ExtractPrompt message" "''medium''" w]
  obtain answer w1 m where
    chat: "llm_chat e (ExtractPrompt message) ''medium'' True w = (Inr answer, w1)"
    and calls: "llm_calls w1 = llm_calls w @ [(m, ExtractPrompt message)]
              \<or> llm_calls w1 = llm_calls w @ [(m, ExtractPrompt message),
                                               (fallback_model_for m, ExtractPrompt message)]"
    by blast
  define w2 where "w2 = (case user_preferences w1 user_id of
                       None \<Rightarrow> w1\<lparr>user_preferences := (user_preferences w1)(user_id \<mapsto> [])\<rparr>
                     | Some d \<Rightarrow> w1)"
  have c2: "llm_calls w2 = llm_calls w1"
    by (simp add: w2_def split: option.splits)
  obtain d2 where u2: "user_preferences w2 user_id = Some d2"
    by (cases "user_preferences w1 user_id") (auto simp: w2_def)
  from extract_lines_ok [OF u2, of e "split_str [CHR 0x0A] (strip answer)"]
  obtain w3 d3 where
    r: "extract_lines e user_id (split_str [CHR 0x0A] (strip answer)) w2 = (Inr (), w3)"
    and p: "user_preferences w3 = (user_preferences w2)(user_id \<mapsto> d3)"
      "llm_calls w3 = llm_calls w2"
    by blast
  from p(1) have u3: "user_preferences w3 user_id = Some d3" by simp
  have "extract_user_info e message user_id w = (Inr d3, w3)"
    using chat r u3 by (simp add: extract_user_info_def w2_def [symmetric])
  then show ?thesis using calls p(2) c2 by auto
qed

lemma alnum_not_space: "is_alnum_ascii c \<Longrightarrow> \<not> isspace c"
  by (auto simp: is_alnum_ascii_def isspace_def)

lemma split_ws_from_token:
  "list_all is_alnum_ascii s \<Longrightarrow> cur @ s \<noteq> [] \<Longrightarrow> split_ws_from cur s = [rev cur @ s]"
  by (induction s arbitrary: cur) (auto simp: alnum_not_space)

lemma split_ws_token: "fullmatch_alnum t \<Longrightarrow> split_ws t = [t]"
  using split_ws_from_token [of t "[]"] by (simp add: fullmatch_alnum_def split_ws_def)

lemma hello_is_greeting: "lower (strip '' Hello '') \<in> set greetings"
  by (simp add: lower_def strip_def isspace_def lower_char_def greetings_def char_of_eq_iff)

lemma env_unknown_key: "api_key env_unknown = Some ''key''"
  by (simp add: env_unknown_def)

lemma chat_unknown_any:
  "llm_chat env_unknown (ExtractPrompt message) ''medium'' True world0 =
     (Inr unknown_response,
      world0\<lparr>llm_calls := [(''models/gemini-2.0-flash'', ExtractPrompt message)], draws := 1\<rparr>)"
  by (simp add: llm_chat_def select_model_def get_gemini_config_def env_unknown_def
      random_choice_def GEMINI_MODELS_def world0_def generate_content_def
      unknown_response_def strip_def isspace_def)

lemma extract_unknown_fresh:
  "extract_user_info env_unknown message ''web_user'' world0 =
     (Inr [], world0\<lparr>user_preferences := [''web_user'' \<mapsto> []],
        llm_calls := [(''models/gemini-2.0-flash'', ExtractPrompt message)], draws := 1\<rparr>)"
proof -
  have q: "list_all quiet (split_str [CHR 0x0A] (strip unknown_response))"
    by (simp add: lines_unknown quiet_unknown)
  have u: "user_preferences world0 ''web_user'' = None" by (simp add: world0_def)
  have p: "user_preferences world0 = Map.empty" by (simp add: world0_def)
  show ?thesis
    using u by (simp add: extract_user_info_def chat_unknown_any extract_lines_quiet [OF q] p)
qed

lemma asdf123_token:
  "fullmatch_alnum (strip ''asdf123'')" "lower (strip ''asdf123'') \<notin> set greetings"
  by (simp_all add: fullmatch_alnum_def is_alnum_ascii_def lower_def strip_def isspace_def
      lower_char_def greetings_def char_of_eq_iff)

text \<open>
  C1. With the API key configured, a message whose trimmed, lower-cased form is one of the
  greeting tokens is answered with the fixed greeting reply. Before the test for a greeting,
  \<^verbatim>\<open>process_user_message\<close> runs fact extraction on the message: the state after the call is
  the state fact extraction leaves, and the completion service has been called for it, once
  with the extraction prompt, or twice when the first attempt failed (the second time with
  the fallback model). No other completion attempt is made: neither the intent prompt nor
  the fashion prompt is sent.
\<close>

theorem greeting_shortcut:
  assumes key: "api_key e = Some k" and nonempty: "k \<noteq> []"
    and greeting: "lower (strip message) \<in> set greetings"
  shows "fst (process_user_message e message user_id w) = Inr greeting_reply
       \<and> snd (process_user_message e message user_id w)
           = snd (extract_user_info e message user_id w)
       \<and> (\<exists>m. llm_calls (snd (process_user_message e message user_id w))
                 = llm_calls w @ [(m, ExtractPrompt message)]
             \<or> llm_calls (snd (process_user_message e message user_id w))
                 = llm_calls w @ [(m, ExtractPrompt message),
                                  (fallback_model_for m, ExtractPrompt message)])"
proof -
  from extract_user_info_ok [OF key nonempty, of message user_id w]
  obtain d w' m where
    x: "extract_user_info e message user_id w = (Inr d, w')"
    and calls: "llm_calls w' = llm_calls w @ [(m, ExtractPrompt message)]
              \<or> llm_calls w' = llm_calls w @ [(m, ExtractPrompt message),
                                               (fallback_model_for m, ExtractPrompt message)]"
    by blast
  have "process_user_message e message user_id w = (Inr greeting_reply, w')"
    using x greeting by (simp add: process_user_message_def)
  then show ?thesis using x calls by auto
qed

theorem greeting_shortcut_witness:
  "api_key env_unknown = Some ''key'' \<and> ''key'' \<noteq> [] 
   \<and> lower (strip '' Hello '') \<in> set greetings
   \<and> fst (process_user_message env_unknown '' Hello '' ''web_user'' world_paris) = Inr greeting_reply
   \<and> snd (process_user_message env_unknown '' Hello '' ''web_user'' world_paris)
           = snd (extract_user_info env_unknown '' Hello '' ''web_user'' world_paris)
   \<and> (\<exists>m. llm_calls (snd (process_user_message env_unknown '' Hello '' ''web_user'' world_paris))
                 = llm_calls world_paris @ [(m, ExtractPrompt '' Hello '')]
             \<or> llm_calls (snd (process_user_message env_unknown '' Hello '' ''web_user'' world_paris))
                 = llm_calls world_paris @ [(m, ExtractPrompt '' Hello ''),
                                  (fallback_model_for m, ExtractPrompt '' Hello '')])"
proof -
  have k: "''key'' \<noteq> []" by simp
  from greeting_shortcut [OF env_unknown_key k hello_is_greeting, of "''web_user''" world_paris]
    env_unknown_key k hello_is_greeting
  show ?thesis by blast
qed

text \<open>
  The message \<^verbatim>\<open>hello\<close> in a fresh process, with a completion service that answers: the
  reply is the greeting, and one completion attempt has been made during the call.
\<close>

theorem greeting_calls_completion_service:
  "process_user_message env_unknown ''hello'' ''web_user'' world0 =
     (Inr greeting_reply,
      world0\<lparr>user_preferences := [''web_user'' \<mapsto> []],
        llm_calls := [(''models/gemini-2.0-flash'', ExtractPrompt ''hello'')], draws := 1\<rparr>)
   \<and> llm_calls (snd (process_user_message env_unknown ''hello'' ''web_user'' world0))
       = [(''models/gemini-2.0-flash'', ExtractPrompt ''hello'')]"
  by (simp add: process_user_message_def extract_unknown_fresh
      lower_def strip_def isspace_def lower_char_def greetings_def char_of_eq_iff)

text \<open>
  C2. With the API key configured, a message that after trimming is one token of
  \<^verbatim>\<open>[a-zA-Z0-9]+\<close> and not a greeting is answered with the fixed reply that the message was
  not understood. As for a greeting, fact extraction has run on the message first: the state
  after the call is the state fact extraction leaves, with one or two completion attempts
  for the extraction prompt and no other.
\<close>

theorem token_shortcut:
  assumes key: "api_key e = Some k" and nonempty: "k \<noteq> []"
    and token: "fullmatch_alnum (strip message)"
    and no_greeting: "lower (strip message) \<notin> set greetings"
  shows "fst (process_user_message e message user_id w) = Inr not_understood_reply
       \<and> snd (process_user_message e message user_id w)
           = snd (extract_user_info e message user_id w)
       \<and> (\<exists>m. llm_calls (snd (process_user_message e message user_id w))
                 = llm_calls w @ [(m, ExtractPrompt message)]
             \<or> llm_calls (snd (process_user_message e message user_id w))
                 = llm_calls w @ [(m, ExtractPrompt message),
                                  (fallback_model_for m, ExtractPrompt message)])"
proof -
  from extract_user_info_ok [OF key nonempty, of message user_id w]
  obtain d w' m where
    x: "extract_user_info e message user_id w = (Inr d, w')"
    and calls: "llm_calls w' = llm_calls w @ [(m, ExtractPrompt message)]
              \<or> llm_calls w' = llm_calls w @ [(m, ExtractPrompt message),
                                               (fallback_model_for m, ExtractPrompt message)]"
    by blast
  have "process_user_message e message user_id w = (Inr not_understood_reply, w')"
    using x token no_greeting by (simp add: process_user_message_def split_ws_token)
  then show ?thesis using x calls by auto
qed

theorem token_shortcut_witness:
  "api_key env_down = Some ''key'' \<and> ''key'' \<noteq> []
   \<and> fullmatch_alnum (strip ''asdf123'')
   \<and> lower (strip ''asdf123'') \<notin> set greetings
   \<and> fst (process_user_message env_down ''asdf123'' ''web_user'' world0) = Inr not_understood_reply
   \<and> snd (process_user_message env_down ''asdf123'' ''web_user'' world0)
           = snd (extract_user_info env_down ''asdf123'' ''web_user'' world0)
   \<and> (\<exists>m. llm_calls (snd (process_user_message env_down ''asdf123'' ''web_user'' world0))
                 = llm_calls world0 @ [(m, ExtractPrompt ''asdf123'')]
             \<or> llm_calls (snd (process_user_message env_down ''asdf123'' ''web_user'' world0))
                 = llm_calls world0 @ [(m, ExtractPrompt ''asdf123''),
                                  (fallback_model_for m, ExtractPrompt ''asdf123'')])"
proof -
  have key: "api_key env_down = Some ''key''" by (simp add: env_down_def)
  have k: "''key'' \<noteq> []" by simp
  from token_shortcut [OF key k asdf123_token, of "''web_user''" world0]
    key k asdf123_token
  show ?thesis by blast
qed

text \<open>
  The message \<^verbatim>\<open>asdf123\<close> in a fresh process, with a completion service that answers: the
  reply is the fixed one, and one completion attempt has been made during the call.
\<close>

theorem token_calls_completion_service:
  "process_user_message env_unknown ''asdf123'' ''web_user'' world0 =
     (Inr not_understood_reply,
      world0\<lparr>user_preferences := [''web_user'' \<mapsto> []],
        llm_calls := [(''models/gemini-2.0-flash'', ExtractPrompt ''asdf123'')], draws := 1\<rparr>)
   \<and> llm_calls (snd (process_user_message env_unknown ''asdf123'' ''web_user'' world0))
       = [(''models/gemini-2.0-flash'', ExtractPrompt ''asdf123'')]"
  by (simp add: process_user_message_def extract_unknown_fresh split_ws_token asdf123_token)

section \<open>The fallback classification\<close>










text \<open>
  A country that is not a string is outside the statement above. The records that
  \<^verbatim>\<open>get_enhanced_location_info\<close> builds carry \<^verbatim>\<open>None\<close> under \<^verbatim>\<open>country\<close>, and on such a
  record line 187 raises AttributeError.
\<close>

lemma fallback_country_none:
  "get_basic_fallback_classification [(''city'', PNone), (''country'', PNone)] = Inl AttributeError"
  by (simp add: get_basic_fallback_classification_def dict_get_def)

section \<open>The location cache of the assistant\<close>

lemma char_eq_char_of_iff: "c = char_of n \<longleftrightarrow> take_bit 8 (n :: nat) = of_char c"
  using char_of_eq_iff [of n c] by auto

lemma get_llm_location_classification_frame:
  assumes "get_llm_location_classification sv location_info a = (r, a')"
  shows "location_cache a' = location_cache a \<and> lookups a' = lookups a \<and> requests a' = requests a"
  using assms
  by (auto simp: get_llm_location_classification_def Let_def
      split: option.splits sum.splits)

lemma get_user_location_polygon_sent:
  assumes "get_user_location_polygon e q reqs = (p, sent)"
  shows "sent = reqs \<or> sent = reqs @ [q]"
  using assms by (auto simp: get_user_location_polygon_def split: if_splits)

text \<open>
  C4. When an enrichment of a location by the assistant returns a record, a second
  enrichment of the same location in the state the first one left returns the same record
  and leaves the state as it is: no lookup, no request to the geocoder, no call of the
  completion function. The first enrichment has issued the lookup at most once, so the two
  together issue it at most once.
\<close>

theorem enrich_twice_one_lookup:
  assumes first: "assistant_get_enhanced_location_info e sv location a = (Inr (Some info), a1)"
  shows "assistant_get_enhanced_location_info e sv location a1 = (Inr (Some info), a1)
       \<and> (lookups a1 = lookups a \<or> lookups a1 = lookups a @ [location])
       \<and> (requests a1 = requests a \<or> requests a1 = requests a @ [location])"
proof (cases "location_cache a location")
  case (Some cached)
  with first have "a1 = a" "cached = info"
    by (simp_all add: assistant_get_enhanced_location_info_def)
  with Some show ?thesis
    by (simp add: assistant_get_enhanced_location_info_def)
next
  case None
  obtain polygon sent where g: "get_user_location_polygon e location (requests a) = (polygon, sent)"
    by (cases "get_user_location_polygon e location (requests a)") auto
  let ?a1 = "a\<lparr>lookups := lookups a @ [location], requests := sent\<rparr>"
  from first None g obtain location_info llm_classification a2 where
    c: "get_llm_location_classification sv location_info ?a1 = (Inr llm_classification, a2)"
    and a1: "a1 = a2\<lparr>location_cache := (location_cache a2)(location \<mapsto> info)\<rparr>"
    by (auto simp: assistant_get_enhanced_location_info_def Let_def
        split: option.splits if_splits pyval.splits sum.splits prod.splits)
  from get_llm_location_classification_frame [OF c]
  have f: "lookups a2 = lookups a @ [location]" "requests a2 = sent" by simp_all
  have cached: "location_cache a1 location = Some info" by (simp add: a1)
  have "assistant_get_enhanced_location_info e sv location a1 = (Inr (Some info), a1)"
    using cached by (simp add: assistant_get_enhanced_location_info_def)
  moreover have "lookups a1 = lookups a @ [location]" by (simp add: a1 f)
  moreover have "requests a1 = requests a \<or> requests a1 = requests a @ [location]"
    using get_user_location_polygon_sent [OF g] by (simp add: a1 f)
  ultimately show ?thesis by simp
qed

lemma parse_paris:
  "parse_llm_classification_response services_text ''Region: europe'' = Inr paris_classification"
  by (simp add: parse_llm_classification_response_def search_braces_def
      parse_text_classification_response_def split_str.simps text_line_def strip_def isspace_def
      contains_def lower_def lower_char_def replace_char_def scalar_fields_def
      default_classification_def dict_set_def strip_chars_def paris_classification_def
      char_of_eq_iff char_eq_char_of_iff)

lemma lookup_paris:
  "get_user_location_polygon env_paris ''Paris'' [] =
     (Some [(''display_name'', PStr ''Paris, France''), (''source'', PStr ''nominatim''),
            (''latitude'', PNum (977 / 20)), (''longitude'', PNum (47 / 20)),
            (''bbox'', PList []), (''address'', PDict []), (''place_id'', PStr []),
            (''importance'', PNum 0)], [''Paris''])"
  by (simp add: get_user_location_polygon_def env_paris_def nominatim_record_def dict_get_def
      lower_def lower_char_def char_of_eq_iff char_eq_char_of_iff)

lemma first_paris:
  "assistant_get_enhanced_location_info env_paris services_text ''Paris'' assistant0
     = (Inr (Some paris_info), assistant_paris)"
  by (simp add: assistant_get_enhanced_location_info_def lookup_paris assistant0_def
      get_llm_location_classification_def location_key_def py_str_def dict_get_def py_or_def
      services_text_def [THEN arg_cong, of llm_chat_function] parse_paris
      Let_def paris_info_def paris_classification_def dict_set_def assistant_paris_def)

theorem enrich_twice_one_lookup_witness:
  "assistant_get_enhanced_location_info env_paris services_text ''Paris'' assistant0
     = (Inr (Some paris_info), assistant_paris)
   \<and> assistant_get_enhanced_location_info env_paris services_text ''Paris'' assistant_paris
     = (Inr (Some paris_info), assistant_paris)
   \<and> lookups assistant_paris = [''Paris'']"
  using first_paris enrich_twice_one_lookup [OF first_paris]
  by (simp add: assistant_paris_def)

text \<open>
  A lookup that finds nothing is not cached: with a geocoder that answers with an empty list
  of results, two enrichments of \<^verbatim>\<open>Atlantis\<close> issue the lookup twice and send two requests.
\<close>

theorem failed_lookup_not_cached:
  "assistant_get_enhanced_location_info env_nowhere services_text ''Atlantis'' assistant0
     = (Inr None, assistant0\<lparr>lookups := [''Atlantis''], requests := [''Atlantis'']\<rparr>)
   \<and> assistant_get_enhanced_location_info env_nowhere services_text ''Atlantis''
       (assistant0\<lparr>lookups := [''Atlantis''], requests := [''Atlantis'']\<rparr>)
     = (Inr None, assistant0\<lparr>lookups := [''Atlantis'', ''Atlantis''],
                   requests := [''Atlantis'', ''Atlantis'']\<rparr>)"
  by (simp add: assistant_get_enhanced_location_info_def assistant0_def
      get_user_location_polygon_def env_nowhere_def lower_def lower_char_def char_of_eq_iff
      char_eq_char_of_iff)

text \<open>
  The function of the same name in \<^verbatim>\<open>gemini_utils.py\<close> keeps no cache: every call with a
  location that is neither empty nor \<^verbatim>\<open>unknown\<close> sends a request.
\<close>

lemma module_level_lookup_every_call:
  assumes "location \<noteq> []" and "lower location \<noteq> ''unknown''"
  shows "http_calls (snd (get_enhanced_location_info e location w)) = http_calls w @ [location]"
  using assms
  by (simp add: get_enhanced_location_info_def get_user_location_polygon_def split: prod.splits)

section \<open>The classification parser\<close>

lemma has_key_dict_set: "has_key (dict_set d k v) k' = (k' = k \<or> has_key d k')"
  by (simp add: has_key_def map_of_dict_set)

lemma map_of_ensure_required:
  "map_of (ensure_required f c) k
     = (if k = f \<and> \<not> has_key c f then Some (PStr ''unknown'') else map_of c k)"
  by (simp add: ensure_required_def map_of_dict_set)

lemma map_of_fold_ensure_required:
  "map_of (fold ensure_required fs c) k
     = (if k \<in> set fs \<and> \<not> has_key c k then Some (PStr ''unknown'') else map_of c k)"
proof (induction fs arbitrary: c)
  case Nil
  then show ?case by simp
next
  case (Cons f fs)
  show ?case
    by (simp add: Cons.IH map_of_ensure_required) (auto simp: has_key_def map_of_ensure_required)
qed

lemma list_test: "(\<not> has_key c f \<or> \<not> is_list (dict_get c f PNone)) = (\<not> has_list c f)"
  by (cases "map_of c f"; cases "the (map_of c f)")
     (simp_all add: has_key_def dict_get_def has_list_def)

lemma ensure_list_alt:
  "ensure_list f c = (if \<not> has_list c f then dict_set c f (PList []) else c)"
  by (simp only: ensure_list_def list_test)

lemma map_of_ensure_list:
  "map_of (ensure_list f c) k
     = (if k = f \<and> \<not> has_list c f then Some (PList []) else map_of c k)"
  by (simp add: ensure_list_alt map_of_dict_set)

lemma map_of_fold_ensure_list:
  "map_of (fold ensure_list fs c) k
     = (if k \<in> set fs \<and> \<not> has_list c k then Some (PList []) else map_of c k)"
proof (induction fs arbitrary: c)
  case Nil
  then show ?case by simp
next
  case (Cons f fs)
  have "has_list (ensure_list f c) k = (if k = f then True else has_list c k)"
    by (simp add: has_list_def map_of_ensure_list)
  then show ?case
    by (auto simp: Cons.IH map_of_ensure_list)
qed

lemma map_of_ensure_recommendations:
  "map_of (ensure_recommendations c) k
     = (if k = ''climate_recommendations'' \<and> \<not> has_key c ''climate_recommendations''
        then Some empty_recommendations else map_of c k)"
  by (simp add: ensure_recommendations_def map_of_dict_set)

lemma fields_apart:
  "k \<in> set required_fields \<Longrightarrow> k \<notin> set list_fields"
  "k \<in> set required_fields \<Longrightarrow> k \<noteq> ''climate_recommendations''"
  "k \<in> set list_fields \<Longrightarrow> k \<noteq> ''climate_recommendations''"
  "''climate_recommendations'' \<notin> set required_fields"
  "''climate_recommendations'' \<notin> set list_fields"
  by (auto simp: required_fields_def list_fields_def)

lemma map_of_validated:
  "map_of (ensure_recommendations
             (fold ensure_list list_fields (fold ensure_required required_fields given))) k
     = (if k \<in> set required_fields
        then (if has_key given k then map_of given k else Some (PStr ''unknown''))
        else if k \<in> set list_fields
        then (if has_list given k then map_of given k else Some (PList []))
        else if k = ''climate_recommendations''
        then (if has_key given k then map_of given k else Some empty_recommendations)
        else map_of given k)"
proof -
  let ?c1 = "fold ensure_required required_fields given"
  let ?c2 = "fold ensure_list list_fields ?c1"
  have c1: "\<And>j. map_of ?c1 j = (if j \<in> set required_fields \<and> \<not> has_key given j
                               then Some (PStr ''unknown'') else map_of given j)"
    by (rule map_of_fold_ensure_required)
  have c2: "\<And>j. map_of ?c2 j = (if j \<in> set list_fields \<and> \<not> has_list ?c1 j
                               then Some (PList []) else map_of ?c1 j)"
    by (rule map_of_fold_ensure_list)
  have hl: "\<And>j. j \<in> set list_fields \<Longrightarrow> has_list ?c1 j = has_list given j"
    using fields_apart(1) by (auto simp: has_list_def c1)
  have hk: "has_key ?c2 ''climate_recommendations'' = has_key given ''climate_recommendations''"
    by (simp add: has_key_def c2 c1 fields_apart)
  consider (req) "k \<in> set required_fields"
    | (lst) "k \<notin> set required_fields" "k \<in> set list_fields"
    | (rec) "k \<notin> set required_fields" "k \<notin> set list_fields" "k = ''climate_recommendations''"
    | (other) "k \<notin> set required_fields" "k \<notin> set list_fields" "k \<noteq> ''climate_recommendations''"
    by blast
  then show ?thesis
  proof cases
    case req
    then show ?thesis
      using fields_apart(1,2) [OF req]
      by (simp add: map_of_ensure_recommendations c2 c1)
  next
    case lst
    then show ?thesis
      using fields_apart(3) [OF lst(2)] hl [OF lst(2)]
      by (simp add: map_of_ensure_recommendations c2 c1)
  next
    case rec
    then show ?thesis
      by (simp add: map_of_ensure_recommendations hk c2 c1 fields_apart)
  next
    case other
    then show ?thesis
      by (simp add: map_of_ensure_recommendations c2 c1)
  qed
qed

lemma parse_list_value_is_list: "\<exists>xs. parse_list_value v = PList xs"
  by (simp add: parse_list_value_def Let_def)

lemma text_line_cases:
  "text_line raw c = c
   \<or> (\<exists>key v. text_line raw c = dict_set c key v \<and> line_key raw = Some key
         \<and> ((key \<in> set scalar_fields \<and> (\<exists>s. v = PStr s))
            \<or> (key \<notin> set scalar_fields \<and> key \<in> set list_fields \<and> (\<exists>xs. v = PList xs))))"
proof (cases "contains '':'' (strip raw) \<and> \<not> startswith ''-'' (strip raw)")
  case False
  then show ?thesis by (auto simp: text_line_def Let_def)
next
  case True
  show ?thesis
  proof (cases "split_once CHR '':'' (strip raw)")
    case Nil
    with True show ?thesis by (simp add: text_line_def Let_def del: split_once.simps)
  next
    case (Cons p0 ps)
    note parts = Cons
    show ?thesis
    proof (cases ps)
      case Nil
      with parts True show ?thesis by (simp add: text_line_def Let_def del: split_once.simps)
    next
      case (Cons p1 rest)
      define key where "key = replace_char CHR ''-'' ''_'' (replace_char CHR '' '' ''_'' (lower (strip p0)))"
      obtain xs where xs: "parse_list_value (strip p1) = PList xs"
        using parse_list_value_is_list by blast
      have k: "line_key raw = Some key"
        using True parts Cons by (simp add: line_key_def Let_def key_def del: split_once.simps)
      have t: "text_line raw c =
          (if key \<in> set scalar_fields
           then dict_set c key (PStr (strip_chars [CHR 0x22] (strip p1)))
           else if key \<in> set list_fields
           then (if contains ''['' (strip p1) \<and> contains '']'' (strip p1)
                 then dict_set c key (PList xs) else c)
           else c)"
        using True parts Cons
        by (simp add: text_line_def Let_def key_def xs del: split_once.simps)
      show ?thesis
        unfolding t using k by auto
    qed
  qed
qed

lemma map_of_text_line:
  "line_key raw \<noteq> Some f \<Longrightarrow> map_of (text_line raw c) f = map_of c f"
  using text_line_cases [of raw c] by (auto simp: map_of_dict_set)

lemma map_of_fold_text_line:
  "list_all (\<lambda>raw. line_key raw \<noteq> Some f) lines \<Longrightarrow>
     map_of (fold text_line lines c) f = map_of c f"
  by (induction lines arbitrary: c) (simp_all add: map_of_text_line)

lemma scalar_list_apart:
  "k \<in> set scalar_fields \<Longrightarrow> k \<notin> set list_fields"
  "k \<in> set scalar_fields \<Longrightarrow> k \<noteq> ''climate_recommendations''"
  "k \<in> set list_fields \<Longrightarrow> k \<noteq> ''climate_recommendations''"
  by (auto simp: scalar_fields_def list_fields_def)

lemma text_shape_scalar:
  assumes "text_shape c" and "key \<in> set scalar_fields"
  shows "text_shape (dict_set c key (PStr s))"
proof -
  have "has_string (dict_set c key (PStr s)) f = (f = key \<or> has_string c f)" for f
    by (simp add: has_string_def map_of_dict_set)
  moreover have "f \<in> set list_fields \<Longrightarrow> has_list (dict_set c key (PStr s)) f = has_list c f" for f
    using scalar_list_apart(1) [OF assms(2)] by (auto simp: has_list_def map_of_dict_set)
  ultimately show ?thesis
    using assms scalar_list_apart(2) [OF assms(2)]
    by (auto simp: text_shape_def list_all_iff map_of_dict_set)
qed

lemma text_shape_list:
  assumes "text_shape c" and "key \<notin> set scalar_fields" and "key \<in> set list_fields"
  shows "text_shape (dict_set c key (PList xs))"
proof -
  have "has_list (dict_set c key (PList xs)) f = (f = key \<or> has_list c f)" for f
    by (simp add: has_list_def map_of_dict_set)
  moreover have "f \<in> set scalar_fields \<Longrightarrow> has_string (dict_set c key (PList xs)) f = has_string c f" for f
    using assms(2) by (auto simp: has_string_def map_of_dict_set)
  ultimately show ?thesis
    using assms scalar_list_apart(3) [OF assms(3)]
    by (auto simp: text_shape_def list_all_iff map_of_dict_set)
qed

lemma text_shape_text_line: "text_shape c \<Longrightarrow> text_shape (text_line raw c)"
  using text_line_cases [of raw c] text_shape_scalar text_shape_list by auto

lemma text_shape_fold: "text_shape c \<Longrightarrow> text_shape (fold text_line lines c)"
  by (induction lines arbitrary: c) (simp_all add: text_shape_text_line)

lemma text_shape_default: "text_shape default_classification"
  by (simp add: text_shape_def default_classification_def scalar_fields_def list_fields_def
      has_string_def has_list_def)

lemma text_shape_parse_text: "text_shape (parse_text_classification_response response)"
  unfolding parse_text_classification_response_def
  by (rule text_shape_fold) (rule text_shape_default)

lemma has_string_has_key: "has_string c f \<Longrightarrow> has_key c f"
  by (auto simp: has_string_def has_key_def split: option.splits)

lemma text_path_keys:
  assumes "c = parse_text_classification_response response"
  shows "list_all (has_key c) required_fields \<and> list_all (has_list c) list_fields
       \<and> has_key c ''climate_recommendations''
       \<and> list_all (has_string c) scalar_fields
       \<and> map_of c ''climate_recommendations'' = Some empty_recommendations
       \<and> (\<forall>f. list_all (\<lambda>raw. line_key raw \<noteq> Some f) (split_str [CHR 0x0A] response)
                 \<longrightarrow> map_of c f = map_of default_classification f)"
proof -
  from text_shape_parse_text [of response] assms
  have s: "list_all (has_string c) scalar_fields" "list_all (has_list c) list_fields"
    "map_of c ''climate_recommendations'' = Some empty_recommendations"
    by (simp_all add: text_shape_def)
  from s(1) have "list_all (has_key c) required_fields"
    by (simp add: scalar_fields_def required_fields_def has_string_has_key)
  moreover have "has_key c ''climate_recommendations''"
    using s(3) by (simp add: has_key_def)
  moreover have "\<forall>f. list_all (\<lambda>raw. line_key raw \<noteq> Some f) (split_str [CHR 0x0A] response)
                 \<longrightarrow> map_of c f = map_of default_classification f"
    using assms by (simp add: parse_text_classification_response_def map_of_fold_text_line)
  ultimately show ?thesis using s by simp
qed

lemma json_path_keys:
  assumes "c = ensure_recommendations
             (fold ensure_list list_fields (fold ensure_required required_fields given))"
  shows "list_all (has_key c) required_fields \<and> list_all (has_list c) list_fields
       \<and> has_key c ''climate_recommendations''
       \<and> list_all (\<lambda>f. map_of c f = (if has_key given f then map_of given f
                                     else Some (PStr ''unknown''))) required_fields
       \<and> list_all (\<lambda>f. map_of c f = (if has_list given f then map_of given f
                                     else Some (PList []))) list_fields
       \<and> map_of c ''climate_recommendations''
           = (if has_key given ''climate_recommendations''
              then map_of given ''climate_recommendations'' else Some empty_recommendations)
       \<and> map_of c ''seasonal_info'' = map_of given ''seasonal_info''
       \<and> map_of c ''price_range_info'' = map_of given ''price_range_info''"
proof -
  have m: "\<And>k. map_of c k
     = (if k \<in> set required_fields
        then (if has_key given k then map_of given k else Some (PStr ''unknown''))
        else if k \<in> set list_fields
        then (if has_list given k then map_of given k else Some (PList []))
        else if k = ''climate_recommendations''
        then (if has_key given k then map_of given k else Some empty_recommendations)
        else map_of given k)"
    unfolding assms by (rule map_of_validated)
  have r: "\<And>f. f \<in> set required_fields \<Longrightarrow>
             map_of c f = (if has_key given f then map_of given f else Some (PStr ''unknown''))"
    by (simp add: m)
  have l: "\<And>f. f \<in> set list_fields \<Longrightarrow>
             map_of c f = (if has_list given f then map_of given f else Some (PList []))"
    using fields_apart(1) by (auto simp: m)
  have rk: "\<And>f. f \<in> set required_fields \<Longrightarrow> has_key c f"
    using r by (auto simp: has_key_def)
  have ll: "\<And>f. f \<in> set list_fields \<Longrightarrow> has_list c f"
    using l by (auto simp: has_list_def split: option.splits pyval.splits)
  have cr: "map_of c ''climate_recommendations''
           = (if has_key given ''climate_recommendations''
              then map_of given ''climate_recommendations'' else Some empty_recommendations)"
    by (simp add: m fields_apart)
  then have ck: "has_key c ''climate_recommendations''"
    by (auto simp: has_key_def)
  have s: "map_of c ''seasonal_info'' = map_of given ''seasonal_info''"
    "map_of c ''price_range_info'' = map_of given ''price_range_info''"
    by (simp_all add: m required_fields_def list_fields_def)
  show ?thesis
    using r l rk ll cr ck s by (simp add: list_all_iff)
qed

text \<open>
  C3. For every response, \<^verbatim>\<open>_parse_llm_classification_response\<close> returns a record unless
  \<^verbatim>\<open>json.loads\<close> raises something other than a decoding error. The record has the keys
  \<^verbatim>\<open>region\<close>, \<^verbatim>\<open>climate_zone\<close>, \<^verbatim>\<open>fashion_market\<close> and \<^verbatim>\<open>climate_recommendations\<close>, and a
  list under each of the five list keys.

  \<^item> When a JSON object \<open>given\<close> was decoded: each of the three required keys holds what
    \<open>given\<close> holds, or \<^verbatim>\<open>unknown\<close> when \<open>given\<close> lacks the key; each list key holds the list
    of \<open>given\<close>, or the empty list when \<open>given\<close> has none there;
    \<^verbatim>\<open>climate_recommendations\<close> holds what \<open>given\<close> holds, or the four empty lists when
    \<open>given\<close> lacks the key; \<^verbatim>\<open>seasonal_info\<close> and \<^verbatim>\<open>price_range_info\<close> are present exactly
    when \<open>given\<close> has them.
  \<^item> Otherwise the record is the one the line scan builds: the five scalar keys hold
    strings, \<^verbatim>\<open>climate_recommendations\<close> holds the four empty lists, and a key that no line
    of the response names holds its default (\<^verbatim>\<open>unknown\<close> for the region, \<^verbatim>\<open>temperate\<close>,
    \<^verbatim>\<open>international\<close>, \<^verbatim>\<open>Varies by season\<close>, \<^verbatim>\<open>Varies\<close>, empty lists).
\<close>

theorem classification_record_keys:
  "case parse_llm_classification_response sv response of
     Inl err \<Rightarrow>
       (\<exists>json_str. search_braces response = Some json_str \<and> json_loads sv json_str = Raises err)
   | Inr c \<Rightarrow>
       list_all (has_key c) required_fields
     \<and> list_all (has_list c) list_fields
     \<and> has_key c ''climate_recommendations''
     \<and> (case decoded sv response of
          Some given \<Rightarrow>
              list_all (\<lambda>f. map_of c f = (if has_key given f then map_of given f
                                          else Some (PStr ''unknown''))) required_fields
            \<and> list_all (\<lambda>f. map_of c f = (if has_list given f then map_of given f
                                          else Some (PList []))) list_fields
            \<and> map_of c ''climate_recommendations''
                = (if has_key given ''climate_recommendations''
                   then map_of given ''climate_recommendations'' else Some empty_recommendations)
            \<and> map_of c ''seasonal_info'' = map_of given ''seasonal_info''
            \<and> map_of c ''price_range_info'' = map_of given ''price_range_info''
        | None \<Rightarrow>
              c = parse_text_classification_response response
            \<and> list_all (has_string c) scalar_fields
            \<and> map_of c ''climate_recommendations'' = Some empty_recommendations
            \<and> (\<forall>f. list_all (\<lambda>raw. line_key raw \<noteq> Some f) (split_str [CHR 0x0A] response)
                      \<longrightarrow> map_of c f = map_of default_classification f))"
proof (cases "search_braces response")
  case None
  with text_path_keys [OF refl, of response] show ?thesis
    by (simp add: parse_llm_classification_response_def decoded_def)
next
  case (Some json_str)
  show ?thesis
  proof (cases "json_loads sv json_str")
    case (Decoded given)
    with Some json_path_keys [OF refl, of given] show ?thesis
      by (simp add: parse_llm_classification_response_def decoded_def)
  next
    case DecodeError
    with Some text_path_keys [OF refl, of response] show ?thesis
      by (simp add: parse_llm_classification_response_def decoded_def)
  next
    case (Raises err)
    with Some show ?thesis
      by (simp add: parse_llm_classification_response_def decoded_def)
  qed
qed

lemma split_once_two:
  "contains [c] s \<Longrightarrow> \<exists>p0 p1. split_once c s = [p0, p1]"
  by (auto simp: contains_def)

lemma prose_lines:
  "decoded services_text ''Region: europe'' = None"
  "list_all (\<lambda>raw. line_key raw \<noteq> Some ''climate_zone'') (split_str [CHR 0x0A] ''Region: europe'')"
  "map_of default_classification ''climate_zone'' = Some (PStr ''temperate'')"
  by (simp_all add: decoded_def search_braces_def split_str.simps line_key_def strip_def
      isspace_def contains_def lower_def lower_char_def replace_char_def
      default_classification_def char_of_eq_iff char_eq_char_of_iff)

theorem classification_record_keys_witness:
  "parse_llm_classification_response services_text ''Region: europe'' = Inr paris_classification
   \<and> decoded services_text ''Region: europe'' = None
   \<and> list_all (\<lambda>raw. line_key raw \<noteq> Some ''climate_zone'')
        (split_str [CHR 0x0A] ''Region: europe'')
   \<and> map_of paris_classification ''climate_zone'' = Some (PStr ''temperate'')
   \<and> list_all (has_string paris_classification) scalar_fields"
  using classification_record_keys [where sv = services_text and response = "''Region: europe''"] parse_paris prose_lines
  by simp

text \<open>
  The response with the three required fields only: the record returned has empty lists and
  the four empty recommendation lists, and neither \<^verbatim>\<open>seasonal_info\<close> nor
  \<^verbatim>\<open>price_range_info\<close>.
\<close>

theorem three_field_object_lacks_keys:
  "parse_llm_classification_response services_json response_three_fields
     = Inr three_fields_classification
   \<and> map_of three_fields_classification ''seasonal_info'' = None
   \<and> map_of three_fields_classification ''price_range_info'' = None
   \<and> has_key three_fields_classification ''seasonal_info'' = False
   \<and> has_key three_fields_classification ''price_range_info'' = False"
proof -
  have b: "search_braces response_three_fields = Some response_three_fields"
    by (simp add: search_braces_def response_three_fields_def)
  have l: "json_loads services_json response_three_fields
             = Decoded [(''region'', PStr ''south_asia''), (''climate_zone'', PStr ''tropical''),
                        (''fashion_market'', PStr ''indian'')]"
    by (simp add: services_json_def)
  have "parse_llm_classification_response services_json response_three_fields
     = Inr three_fields_classification"
    by (simp add: parse_llm_classification_response_def b l required_fields_def list_fields_def
        ensure_required_def ensure_list_def ensure_recommendations_def has_key_def dict_get_def
        dict_set_def three_fields_classification_def)
  then show ?thesis
    by (simp add: three_fields_classification_def has_key_def)
qed

end
